theory Spec2Isabelle
  imports Complex_Main "HOL-Library.Word" "HOL-Library.Sublist" "HOL-Library.AList"
begin

section \<open>JavaScript values used by the server\<close>

text \<open>
  A JavaScript string is a sequence of UTF-16 code units; \<open>s.length\<close> counts code units and
  \<open>s.substring(0, n)\<close> keeps the first \<open>n\<close> of them. Source literals are ASCII and are
  injected with \<open>lit\<close>.
\<close>

type_synonym code_unit = "16 word"
type_synonym jsstring = "code_unit list"

definition lit :: "string \<Rightarrow> jsstring" where
  "lit s = map of_char s"

text \<open>\<open>Array.prototype.join\<close> on an array of strings.\<close>

fun join :: "jsstring \<Rightarrow> jsstring list \<Rightarrow> jsstring" where
  "join sep [] = []"
| "join sep [x] = x"
| "join sep (x # y # ys) = x @ sep @ join sep (y # ys)"

text \<open>
  \<open>String.prototype.trim\<close> strips WhiteSpace and LineTerminator code units (ECMAScript
  12.2 and 12.3) from both ends.
\<close>

definition is_js_space :: "code_unit \<Rightarrow> bool" where
  "is_js_space c \<longleftrightarrow>
     c \<in> set [0x0009, 0x000A, 0x000B, 0x000C, 0x000D, 0x0020, 0x00A0, 0x1680,
               0x2000, 0x2001, 0x2002, 0x2003, 0x2004, 0x2005, 0x2006, 0x2007,
               0x2008, 0x2009, 0x200A, 0x2028, 0x2029, 0x202F, 0x205F, 0x3000, 0xFEFF]"

definition trim :: "jsstring \<Rightarrow> jsstring" where
  "trim s = rev (dropWhile is_js_space (rev (dropWhile is_js_space s)))"

text \<open>
  Number-to-string conversion inside a template literal, for the integers the server
  formats (document ids, chunk indexes, page numbers): plain decimal digits.
\<close>

definition digit_unit :: "nat \<Rightarrow> code_unit" where
  "digit_unit d = of_nat (48 + d)"

fun decimal :: "nat \<Rightarrow> jsstring" where
  "decimal n = (if n < 10 then [digit_unit n] else decimal (n div 10) @ [digit_unit (n mod 10)])"

declare decimal.simps [simp del]

definition numberToString :: "int \<Rightarrow> jsstring" where
  "numberToString i = (if i < 0 then lit ''-'' @ decimal (nat (- i)) else decimal (nat i))"

text \<open>
  Similarity scores are JavaScript numbers. Every finite double is a rational, and a double
  exceeds the double nearest to \<open>0.7\<close> exactly when it exceeds \<open>7/10\<close>, so scores are
  reals and the threshold is \<open>7/10\<close>.
\<close>

type_synonym vector = "real list"

section \<open>Errors\<close>

text \<open>One constructor per \<open>throw\<close> site; a wrapper keeps the error it wraps.\<close>

datatype error =
    ChatResponseFailed
  | EmbeddingFailed
  | PineconeInitFailed
  | StoreChunksFailed
  | SearchFailed
  | FsError jsstring
  | PdfDocxSetupRequired
  | UnsupportedFileType jsstring
  | EmptyDocument
  | TypeError
  | ProcessFailed error

fun message :: "error \<Rightarrow> jsstring" where
  "message ChatResponseFailed = lit ''Failed to generate chat response''"
| "message EmbeddingFailed = lit ''Failed to generate embedding''"
| "message PineconeInitFailed = lit ''Failed to initialize Pinecone''"
| "message StoreChunksFailed = lit ''Failed to store document chunks''"
| "message SearchFailed = lit ''Failed to search document chunks''"
| "message (FsError m) = m"
| "message PdfDocxSetupRequired =
     lit ''PDF and DOCX processing requires additional setup. Please upload TXT files for now.''"
| "message (UnsupportedFileType m) = lit ''Unsupported file type: '' @ m"
| "message EmptyDocument = lit ''Document appears to be empty or unreadable''"
| "message TypeError = lit ''Cannot read properties of undefined (reading 'documentName')''"
| "message (ProcessFailed e) = lit ''Failed to process document: '' @ message e"

section \<open>Chat Responder: the system instruction\<close>

text \<open>
  The message built at the head of generateChatResponse
  (\<^verbatim>\<open>src/server/services/openai.ts\<close>, lines 27 to 38), with the types of lines 8 to 20.
\<close>

datatype role = System | User | Assistant

record ChatMessage =
  cm_role :: role
  cm_content :: jsstring

record usage =
  prompt_tokens :: nat
  completion_tokens :: nat
  total_tokens :: nat

record ChatResponse =
  cr_content :: jsstring
  cr_usage :: "usage option"

definition instruction_head :: jsstring where
  "instruction_head = lit ''You are a helpful AI assistant powered by GPT-4. You have access to a knowledge base through RAG (Retrieval-Augmented Generation).\<newline>      \<newline>      ''"

definition context_label :: jsstring where
  "context_label = lit ''Here is relevant context from the user's documents:''"

definition context_usage :: jsstring where
  "context_usage = lit ''\<newline>      \<newline>      Use this context to provide accurate and relevant responses. If the context doesn't contain relevant information, you can still provide general assistance.''"

definition no_context_text :: jsstring where
  "no_context_text = lit ''Provide helpful and accurate responses to user queries.''"

definition instruction_tail :: jsstring where
  "instruction_tail = lit ''\<newline>      \<newline>      Always be concise, helpful, and cite sources when using information from the provided context.''"

text \<open>
  \<open>context\<close> is an optional parameter; the template tests its truthiness, so \<open>undefined\<close>
  and the empty string take the same branch.
\<close>

definition truthy_string :: "jsstring option \<Rightarrow> bool" where
  "truthy_string c = (case c of None \<Rightarrow> False | Some s \<Rightarrow> s \<noteq> [])"

definition systemMessage :: "jsstring option \<Rightarrow> ChatMessage" where
  "systemMessage context =
     \<lparr>cm_role = System,
      cm_content = instruction_head
        @ (if truthy_string context
           then context_label @ lit ''\<newline>      \<newline>      '' @ the context @ context_usage
           else no_context_text)
        @ instruction_tail\<rparr>"

section \<open>Vector index records and search results\<close>

text \<open>
  The interfaces of the vector index module (\<^verbatim>\<open>src/server/services/openai.ts\<close>, lines
  82 to 105; the file holds the modules openai, pinecone and storage one after the other).
\<close>

record chunk_metadata =
  md_documentId :: int
  md_documentName :: jsstring
  md_userId :: int
  md_chunkIndex :: int
  md_pageNumber :: "int option"

text \<open>What is stored with a vector: the chunk's metadata spread, plus its text.\<close>

record stored_metadata = chunk_metadata +
  md_text :: "jsstring option"

record DocumentChunk =
  dc_id :: jsstring
  dc_text :: jsstring
  dc_metadata :: chunk_metadata

text \<open>
  One element of \<open>response.matches\<close>: the client library types both \<open>score\<close> and
  \<open>metadata\<close> as optional.
\<close>

record match =
  m_id :: jsstring
  m_score :: "real option"
  m_metadata :: "stored_metadata option"

text \<open>
  \<open>SearchResult.metadata\<close> is \<open>match.metadata as any\<close>: the cast does not make an absent
  metadata present, so the field stays optional here.
\<close>

record SearchResult =
  sr_id :: jsstring
  sr_score :: real
  sr_metadata :: "stored_metadata option"
  sr_text :: jsstring

text \<open>The callback of \<open>response.matches?.map\<close> in searchSimilarChunks (lines 172 to 177).\<close>

definition toSearchResult :: "match \<Rightarrow> SearchResult" where
  "toSearchResult m =
     \<lparr>sr_id = m_id m,
      sr_score = (case m_score m of None \<Rightarrow> 0 | Some s \<Rightarrow> if s = 0 then 0 else s),
      sr_metadata = m_metadata m,
      sr_text = (case m_metadata m of
                   None \<Rightarrow> []
                 | Some md \<Rightarrow> (case md_text md of None \<Rightarrow> [] | Some t \<Rightarrow> if t = [] then [] else t))\<rparr>"

text \<open>\<open>response.matches?.map(...) || []\<close>.\<close>

definition toSearchResults :: "match list option \<Rightarrow> SearchResult list" where
  "toSearchResults ms = (case ms of None \<Rightarrow> [] | Some xs \<Rightarrow> map toSearchResult xs)"

section \<open>Context Retriever: assembling the context\<close>

text \<open>\<^verbatim>\<open>src/server/services/langchain.ts\<close>, lines 94 to 104.\<close>

definition high_confidence :: "SearchResult \<Rightarrow> bool" where
  "high_confidence r \<longleftrightarrow> sr_score r > 7 / 10"

text \<open>\<open>result.metadata.pageNumber || 'unknown'\<close>, converted by the template literal.\<close>

definition pageLabel :: "int option \<Rightarrow> jsstring" where
  "pageLabel p = (case p of None \<Rightarrow> lit ''unknown''
                  | Some n \<Rightarrow> if n = 0 then lit ''unknown'' else numberToString n)"

text \<open>
  The callback of \<open>.map\<close>: reading \<open>result.metadata.documentName\<close> on an absent metadata
  throws a TypeError.
\<close>

definition formatResult :: "SearchResult \<Rightarrow> error + jsstring" where
  "formatResult r =
     (case sr_metadata r of
        None \<Rightarrow> Inl TypeError
      | Some md \<Rightarrow> Inr (lit ''['' @ md_documentName md @ lit '', page ''
                         @ pageLabel (md_pageNumber md) @ lit '']: '' @ sr_text r))"

fun formatAll :: "SearchResult list \<Rightarrow> error + jsstring list" where
  "formatAll [] = Inr []"
| "formatAll (r # rs) =
     (case formatResult r of
        Inl e \<Rightarrow> Inl e
      | Inr s \<Rightarrow> (case formatAll rs of Inl e \<Rightarrow> Inl e | Inr ss \<Rightarrow> Inr (s # ss)))"

definition entry_separator :: jsstring where
  "entry_separator = lit ''\<newline>\<newline>''"

text \<open>The statements between the search and the \<open>return\<close>, inside the \<open>try\<close> block.\<close>

definition contextOfResults :: "SearchResult list \<Rightarrow> error + jsstring" where
  "contextOfResults results =
     (if length results = 0 then Inr []
      else (case formatAll (filter high_confidence results) of
              Inl e \<Rightarrow> Inl e
            | Inr entries \<Rightarrow> Inr (join entry_separator entries)))"

section \<open>External collaborators\<close>

text \<open>
  The server calls an embedding API, a chat-completion API, a hosted vector index, the file
  system and a text splitter. Their answers are inputs of the model: a \<open>world\<close> carries
  the answer of each API call, the state of the hosted index, and the list of the calls made.
\<close>

datatype metric = Cosine | Euclidean | Dotproduct

text \<open>An element of the array handed to \<open>index.upsert\<close>; \<open>embeddings[i]\<close> may be absent.\<close>

record vector_record =
  vr_id :: jsstring
  vr_values :: "vector option"
  vr_metadata :: "stored_metadata option"

record stored_record =
  st_id :: jsstring
  st_values :: vector
  st_metadata :: "stored_metadata option"

record hosted_index =
  ix_name :: jsstring
  ix_dimension :: nat
  ix_metric :: metric
  ix_ready_at :: nat
  ix_records :: "stored_record list"

text \<open>The two metadata filters the server builds: \<open>{ userId }\<close> and \<open>{ documentId }\<close>.\<close>

record query_filter =
  flt_userId :: "int option"
  flt_documentId :: "int option"

record query_request =
  q_vector :: vector
  q_topK :: nat
  q_filter :: query_filter
  q_includeMetadata :: bool

record chat_request =
  rq_model :: jsstring
  rq_messages :: "ChatMessage list"
  rq_temperature :: real
  rq_max_tokens :: nat

record chat_completion =
  cc_choices :: "jsstring option list"
  cc_usage :: "usage option"

datatype pc_call = ListIndexes | CreateIndex | Upsert | Query

datatype event =
    EvEmbed jsstring
  | EvChat chat_request
  | EvReadFile jsstring
  | EvSplitText jsstring
  | EvListIndexes
  | EvCreateIndex jsstring nat metric
  | EvSleep nat
  | EvUpsert jsstring bool "vector_record list"
  | EvQuery jsstring bool query_request

text \<open>
  \<open>clock\<close> counts milliseconds; a created index becomes ready \<open>provision_ms\<close> after its
  creation. \<open>pc_fails\<close> says which calls to the index service are answered by an error.
  \<open>EvUpsert\<close> and \<open>EvQuery\<close> record whether the index was ready when the call was made.
\<close>

record world =
  clock :: nat
  provision_ms :: nat
  env_index_name :: "jsstring option"
  indexes :: "hosted_index list"
  pc_fails :: "pc_call \<Rightarrow> bool"
  score_fn :: "vector \<Rightarrow> vector \<Rightarrow> real"
  embeddings_create :: "jsstring \<Rightarrow> vector list option"
  chat_completions_create :: "chat_request \<Rightarrow> chat_completion option"
  readFileSync :: "jsstring \<Rightarrow> jsstring + jsstring"
  splitText :: "jsstring \<Rightarrow> jsstring list"
  calls :: "event list"

definition record_call :: "event \<Rightarrow> world \<Rightarrow> world" where
  "record_call e w = w\<lparr>calls := calls w @ [e]\<rparr>"

subsection \<open>The hosted vector index\<close>

definition index_ready :: "world \<Rightarrow> jsstring \<Rightarrow> bool" where
  "index_ready w name = list_ex (\<lambda>ix. ix_name ix = name \<and> ix_ready_at ix \<le> clock w) (indexes w)"

definition pc_listIndexes :: "world \<Rightarrow> jsstring list option \<times> world" where
  "pc_listIndexes w =
     (if pc_fails w ListIndexes then None else Some (map ix_name (indexes w)),
      record_call EvListIndexes w)"

definition pc_createIndex :: "world \<Rightarrow> jsstring \<Rightarrow> nat \<Rightarrow> metric \<Rightarrow> bool \<times> world" where
  "pc_createIndex w name d m =
     (let w' = record_call (EvCreateIndex name d m) w in
      if pc_fails w CreateIndex then (False, w')
      else (True, w'\<lparr>indexes := indexes w' @
              [\<lparr>ix_name = name, ix_dimension = d, ix_metric = m,
                ix_ready_at = clock w' + provision_ms w', ix_records = []\<rparr>]\<rparr>))"

definition sleep :: "nat \<Rightarrow> world \<Rightarrow> world" where
  "sleep ms w = record_call (EvSleep ms) (w\<lparr>clock := clock w + ms\<rparr>)"

text \<open>A record with a known id is replaced where it stands; a new id is appended.\<close>

definition put_record :: "stored_record \<Rightarrow> stored_record list \<Rightarrow> stored_record list" where
  "put_record r rs =
     (if list_ex (\<lambda>x. st_id x = st_id r) rs
      then map (\<lambda>x. if st_id x = st_id r then r else x) rs
      else rs @ [r])"

definition to_stored :: "vector_record \<Rightarrow> stored_record" where
  "to_stored v = \<lparr>st_id = vr_id v, st_values = the (vr_values v), st_metadata = vr_metadata v\<rparr>"

text \<open>The service refuses a vector without values, and a write to an index it does not host.\<close>

definition pc_upsert :: "world \<Rightarrow> jsstring \<Rightarrow> vector_record list \<Rightarrow> bool \<times> world" where
  "pc_upsert w name vs =
     (let w' = record_call (EvUpsert name (index_ready w name) vs) w in
      if pc_fails w Upsert \<or> list_ex (\<lambda>v. vr_values v = None) vs
         \<or> \<not> list_ex (\<lambda>ix. ix_name ix = name) (indexes w)
      then (False, w')
      else (True, w'\<lparr>indexes :=
              map (\<lambda>ix. if ix_name ix = name
                         then ix\<lparr>ix_records := fold put_record (map to_stored vs) (ix_records ix)\<rparr>
                         else ix) (indexes w')\<rparr>))"

text \<open>
  A metadata filter is a conjunction of equalities; a record without metadata satisfies
  only the empty filter.
\<close>

definition field_ok :: "int option \<Rightarrow> int \<Rightarrow> bool" where
  "field_ok want have = (case want of None \<Rightarrow> True | Some v \<Rightarrow> have = v)"

definition matches_filter :: "query_filter \<Rightarrow> stored_record \<Rightarrow> bool" where
  "matches_filter f r =
     (case st_metadata r of
        None \<Rightarrow> flt_userId f = None \<and> flt_documentId f = None
      | Some md \<Rightarrow> field_ok (flt_userId f) (md_userId md)
                   \<and> field_ok (flt_documentId f) (md_documentId md))"

definition to_match :: "world \<Rightarrow> query_request \<Rightarrow> stored_record \<Rightarrow> match" where
  "to_match w q r =
     \<lparr>m_id = st_id r,
      m_score = Some (score_fn w (q_vector q) (st_values r)),
      m_metadata = (if q_includeMetadata q then st_metadata r else None)\<rparr>"

text \<open>
  Top-K search: the records that satisfy the filter, by descending score (ties in stored
  order), cut at \<open>topK\<close>.
\<close>

definition top_matches :: "world \<Rightarrow> query_request \<Rightarrow> stored_record list \<Rightarrow> match list" where
  "top_matches w q rs =
     take (q_topK q)
       (sort_key (\<lambda>m. - the (m_score m))
          (map (to_match w q) (filter (matches_filter (q_filter q)) rs)))"

definition pc_query :: "world \<Rightarrow> jsstring \<Rightarrow> query_request \<Rightarrow> match list option option \<times> world" where
  "pc_query w name q =
     (let w' = record_call (EvQuery name (index_ready w name) q) w in
      if pc_fails w Query then (None, w')
      else (Some (Some (top_matches w q
              (concat (map ix_records (filter (\<lambda>ix. ix_name ix = name) (indexes w)))))), w'))"

section \<open>The chat and embedding clients\<close>

text \<open>
  generateChatResponse and generateEmbedding
  (\<^verbatim>\<open>src/server/services/openai.ts\<close>, lines 22 to 73).
\<close>

definition chat_model :: jsstring where
  "chat_model = lit ''gpt-4o''"

text \<open>
  Every failure inside the \<open>try\<close> block, including reading \<open>choices[0]\<close> of an empty
  list, is replaced by the one error of the \<open>catch\<close> block.
\<close>

definition generateChatResponse ::
  "world \<Rightarrow> ChatMessage list \<Rightarrow> jsstring option \<Rightarrow> (error + ChatResponse) \<times> world" where
  "generateChatResponse w messages context =
     (let request = \<lparr>rq_model = chat_model,
                     rq_messages = systemMessage context # messages,
                     rq_temperature = 7 / 10,
                     rq_max_tokens = 1000\<rparr>;
          w' = record_call (EvChat request) w
      in case chat_completions_create w request of
           None \<Rightarrow> (Inl ChatResponseFailed, w')
         | Some response \<Rightarrow>
             (case cc_choices response of
                [] \<Rightarrow> (Inl ChatResponseFailed, w')
              | c # _ \<Rightarrow>
                  (Inr \<lparr>cr_content = (case c of None \<Rightarrow> [] | Some s \<Rightarrow> s),
                        cr_usage = cc_usage response\<rparr>, w')))"

definition generateEmbedding :: "world \<Rightarrow> jsstring \<Rightarrow> (error + vector) \<times> world" where
  "generateEmbedding w text =
     (let w' = record_call (EvEmbed text) w
      in case embeddings_create w text of
           None \<Rightarrow> (Inl EmbeddingFailed, w')
         | Some [] \<Rightarrow> (Inl EmbeddingFailed, w')
         | Some (v # _) \<Rightarrow> (Inr v, w'))"

section \<open>The vector index gateway\<close>

text \<open>
  initializePinecone, upsertDocumentChunks and searchSimilarChunks
  (\<^verbatim>\<open>src/server/services/openai.ts\<close>, lines 107 to 182).
\<close>

definition default_index_name :: jsstring where
  "default_index_name = lit ''chatbot-knowledge-base''"

text \<open>\<open>process.env.PINECONE_INDEX_NAME || "chatbot-knowledge-base"\<close>.\<close>

definition indexName :: "world \<Rightarrow> jsstring" where
  "indexName w = (if truthy_string (env_index_name w) then the (env_index_name w)
                  else default_index_name)"

definition initializePinecone :: "world \<Rightarrow> (error + jsstring) \<times> world" where
  "initializePinecone w =
     (case pc_listIndexes w of
        (None, w1) \<Rightarrow> (Inl PineconeInitFailed, w1)
      | (Some names, w1) \<Rightarrow>
          if list_ex (\<lambda>n. n = indexName w) names then (Inr (indexName w), w1)
          else (case pc_createIndex w1 (indexName w) 1536 Cosine of
                  (False, w2) \<Rightarrow> (Inl PineconeInitFailed, w2)
                | (True, w2) \<Rightarrow> (Inr (indexName w), sleep 10000 w2)))"

definition chunk_vector :: "vector list \<Rightarrow> DocumentChunk \<Rightarrow> nat \<Rightarrow> vector_record" where
  "chunk_vector embeddings chunk i =
     \<lparr>vr_id = dc_id chunk,
      vr_values = (if i < length embeddings then Some (embeddings ! i) else None),
      vr_metadata = Some (chunk_metadata.extend (dc_metadata chunk)
                            (stored_metadata.fields (Some (dc_text chunk))))\<rparr>"

definition upsertDocumentChunks ::
  "world \<Rightarrow> DocumentChunk list \<Rightarrow> vector list \<Rightarrow> (error + unit) \<times> world" where
  "upsertDocumentChunks w chunks embeddings =
     (case initializePinecone w of
        (Inl e, w1) \<Rightarrow> (Inl StoreChunksFailed, w1)
      | (Inr index, w1) \<Rightarrow>
          (case pc_upsert w1 index
                  (map (\<lambda>(chunk, i). chunk_vector embeddings chunk i)
                       (zip chunks [0 ..< length chunks])) of
             (False, w2) \<Rightarrow> (Inl StoreChunksFailed, w2)
           | (True, w2) \<Rightarrow> (Inr (), w2)))"

definition searchSimilarChunks ::
  "world \<Rightarrow> vector \<Rightarrow> int \<Rightarrow> nat \<Rightarrow> (error + SearchResult list) \<times> world" where
  "searchSimilarChunks w queryEmbedding userId topK =
     (case initializePinecone w of
        (Inl e, w1) \<Rightarrow> (Inl SearchFailed, w1)
      | (Inr index, w1) \<Rightarrow>
          (case pc_query w1 index
                  \<lparr>q_vector = queryEmbedding, q_topK = topK,
                   q_filter = \<lparr>flt_userId = Some userId, flt_documentId = None\<rparr>,
                   q_includeMetadata = True\<rparr> of
             (None, w2) \<Rightarrow> (Inl SearchFailed, w2)
           | (Some matches, w2) \<Rightarrow> (Inr (toSearchResults matches), w2)))"

section \<open>The retriever and the document pipeline\<close>

text \<open>
  generateContextFromQuery (\<^verbatim>\<open>src/server/services/langchain.ts\<close>, lines 82 to 109)
  and processDocument (lines 12 to 80).
\<close>

text \<open>The \<open>try\<close> block of generateContextFromQuery.\<close>

definition generateContextFromQuery_try ::
  "world \<Rightarrow> jsstring \<Rightarrow> int \<Rightarrow> (error + jsstring) \<times> world" where
  "generateContextFromQuery_try w query userId =
     (case generateEmbedding w query of
        (Inl e, w1) \<Rightarrow> (Inl e, w1)
      | (Inr queryEmbedding, w1) \<Rightarrow>
          (case searchSimilarChunks w1 queryEmbedding userId 5 of
             (Inl e, w2) \<Rightarrow> (Inl e, w2)
           | (Inr results, w2) \<Rightarrow> (contextOfResults results, w2)))"

text \<open>The \<open>catch\<close> block logs and returns the empty string.\<close>

definition generateContextFromQuery ::
  "world \<Rightarrow> jsstring \<Rightarrow> int \<Rightarrow> (error + jsstring) \<times> world" where
  "generateContextFromQuery w query userId =
     (case generateContextFromQuery_try w query userId of
        (Inl e, w') \<Rightarrow> (Inr [], w')
      | (Inr context, w') \<Rightarrow> (Inr context, w'))"

record ProcessedDocument =
  pd_chunks :: "DocumentChunk list"
  pd_pageCount :: "nat option"

definition mime_plain :: jsstring where
  "mime_plain = lit ''text/plain''"

definition mime_pdf :: jsstring where
  "mime_pdf = lit ''application/pdf''"

definition mime_docx :: jsstring where
  "mime_docx = lit ''application/vnd.openxmlformats-officedocument.wordprocessingml.document''"

text \<open>The \<open>switch\<close> on the mime type.\<close>

definition readDocumentText :: "world \<Rightarrow> jsstring \<Rightarrow> jsstring \<Rightarrow> (error + jsstring) \<times> world" where
  "readDocumentText w filePath mimeType =
     (if mimeType = mime_plain then
        (case readFileSync w filePath of
           Inl m \<Rightarrow> (Inl (FsError m), record_call (EvReadFile filePath) w)
         | Inr text \<Rightarrow> (Inr text, record_call (EvReadFile filePath) w))
      else if mimeType = mime_pdf \<or> mimeType = mime_docx then
        (case readFileSync w filePath of
           Inl m \<Rightarrow> (Inl PdfDocxSetupRequired, record_call (EvReadFile filePath) w)
         | Inr text \<Rightarrow> (Inr text, record_call (EvReadFile filePath) w))
      else (Inl (UnsupportedFileType mimeType), w))"

definition makeChunk :: "int \<Rightarrow> jsstring \<Rightarrow> int \<Rightarrow> jsstring \<Rightarrow> nat \<Rightarrow> DocumentChunk" where
  "makeChunk documentId documentName userId chunk index =
     \<lparr>dc_id = numberToString documentId @ lit ''-'' @ numberToString (int index),
      dc_text = chunk,
      dc_metadata = \<lparr>md_documentId = documentId, md_documentName = documentName,
                     md_userId = userId, md_chunkIndex = int index, md_pageNumber = None\<rparr>\<rparr>"

text \<open>
  \<open>documentChunks.map(chunk => generateEmbedding(chunk.text))\<close> starts one call per chunk,
  whatever the others answer; \<open>Promise.all\<close> then rejects if one of them was rejected.
\<close>

fun embedAll :: "world \<Rightarrow> jsstring list \<Rightarrow> (error + vector) list \<times> world" where
  "embedAll w [] = ([], w)"
| "embedAll w (t # ts) =
     (case generateEmbedding w t of
        (r, w1) \<Rightarrow> (case embedAll w1 ts of (rs, w2) \<Rightarrow> (r # rs, w2)))"

fun promise_all :: "(error + 'a) list \<Rightarrow> error + 'a list" where
  "promise_all [] = Inr []"
| "promise_all (Inl e # rs) = Inl e"
| "promise_all (Inr x # rs) = (case promise_all rs of Inl e \<Rightarrow> Inl e | Inr xs \<Rightarrow> Inr (x # xs))"

text \<open>The \<open>try\<close> block of processDocument.\<close>

definition processDocument_try ::
  "world \<Rightarrow> jsstring \<Rightarrow> int \<Rightarrow> jsstring \<Rightarrow> int \<Rightarrow> jsstring
     \<Rightarrow> (error + ProcessedDocument) \<times> world" where
  "processDocument_try w filePath documentId documentName userId mimeType =
     (case readDocumentText w filePath mimeType of
        (Inl e, w1) \<Rightarrow> (Inl e, w1)
      | (Inr text, w1) \<Rightarrow>
          if trim text = [] then (Inl EmptyDocument, w1)
          else
            (let chunks = splitText w1 text;
                 w2 = record_call (EvSplitText text) w1;
                 documentChunks = map (\<lambda>(chunk, index).
                     makeChunk documentId documentName userId chunk index)
                   (zip chunks [0 ..< length chunks])
             in case embedAll w2 (map dc_text documentChunks) of
                  (answers, w3) \<Rightarrow>
                    (case promise_all answers of
                       Inl e \<Rightarrow> (Inl e, w3)
                     | Inr embeddings \<Rightarrow>
                         (case upsertDocumentChunks w3 documentChunks embeddings of
                            (Inl e, w4) \<Rightarrow> (Inl e, w4)
                          | (Inr u, w4) \<Rightarrow>
                              (Inr \<lparr>pd_chunks = documentChunks, pd_pageCount = Some 1\<rparr>, w4)))))"

definition processDocument ::
  "world \<Rightarrow> jsstring \<Rightarrow> int \<Rightarrow> jsstring \<Rightarrow> int \<Rightarrow> jsstring
     \<Rightarrow> (error + ProcessedDocument) \<times> world" where
  "processDocument w filePath documentId documentName userId mimeType =
     (case processDocument_try w filePath documentId documentName userId mimeType of
        (Inl e, w') \<Rightarrow> (Inl (ProcessFailed e), w')
      | (Inr result, w') \<Rightarrow> (Inr result, w'))"

section \<open>Realtime gateway: the last-message preview\<close>

text \<open>The argument of updateChatSession in \<^verbatim>\<open>src/unnamed/part_001\<close>, line 224.\<close>

text \<open>\<open>content.length > 100 ? content.substring(0, 100) + '...' : content\<close>.\<close>

definition lastMessagePreview :: "jsstring \<Rightarrow> jsstring" where
  "lastMessagePreview content =
     (if length content > 100 then take 100 content @ lit ''...'' else content)"

section \<open>The in-memory session and message store\<close>

text \<open>
  Class MemStorage (\<^verbatim>\<open>src/server/services/openai.ts\<close>, lines 225 to 368).
  A JavaScript \<open>Map\<close> keeps its keys in insertion order: \<open>set\<close> replaces the value of a
  known key where it stands and appends a new key (\<open>AList.update\<close>), \<open>delete\<close> removes
  the key (\<open>AList.delete\<close>), \<open>get\<close> is \<open>map_of\<close>. Only the maps and counters of
  sessions and messages are modelled; users and documents are not touched by the
  operations below. \<open>new Date()\<close> is an input of each operation that reads it.
\<close>

record sources =
  hasContext :: bool

record ChatSession =
  cs_id :: int
  cs_userId :: int
  cs_title :: jsstring
  cs_lastMessage :: "jsstring option"
  cs_createdAt :: int
  cs_updatedAt :: int

record InsertChatSession =
  ics_userId :: int
  ics_title :: jsstring
  ics_lastMessage :: "jsstring option"

record Message =
  msg_id :: int
  msg_sessionId :: int
  msg_role :: role
  msg_content :: jsstring
  msg_sources :: "sources option"
  msg_createdAt :: int

record InsertMessage =
  im_sessionId :: int
  im_role :: role
  im_content :: jsstring
  im_sources :: "sources option"

text \<open>\<open>Partial<ChatSession>\<close>, for the keys callers pass: an absent key is \<open>None\<close>.\<close>

record ChatSessionUpdates =
  upd_title :: "jsstring option"
  upd_lastMessage :: "jsstring option option"

record MemStorage =
  chatSessions :: "(int \<times> ChatSession) list"
  messages :: "(int \<times> Message) list"
  currentSessionId :: int
  currentMessageId :: int

definition newMemStorage :: MemStorage where
  "newMemStorage = \<lparr>chatSessions = [], messages = [], currentSessionId = 1, currentMessageId = 1\<rparr>"

definition getChatSession :: "MemStorage \<Rightarrow> int \<Rightarrow> ChatSession option" where
  "getChatSession s i = map_of (chatSessions s) i"

definition createChatSession :: "MemStorage \<Rightarrow> int \<Rightarrow> InsertChatSession \<Rightarrow> ChatSession \<times> MemStorage" where
  "createChatSession s now insertSession =
     (let i = currentSessionId s;
          session = \<lparr>cs_id = i, cs_userId = ics_userId insertSession,
                     cs_title = ics_title insertSession,
                     cs_lastMessage = (if truthy_string (ics_lastMessage insertSession)
                                       then ics_lastMessage insertSession else None),
                     cs_createdAt = now, cs_updatedAt = now\<rparr>
      in (session, s\<lparr>chatSessions := AList.update i session (chatSessions s),
                      currentSessionId := i + 1\<rparr>))"

definition applyUpdates :: "ChatSessionUpdates \<Rightarrow> ChatSession \<Rightarrow> ChatSession" where
  "applyUpdates u session =
     session\<lparr>cs_title := (case upd_title u of None \<Rightarrow> cs_title session | Some t \<Rightarrow> t),
             cs_lastMessage := (case upd_lastMessage u of
                                  None \<Rightarrow> cs_lastMessage session | Some l \<Rightarrow> l)\<rparr>"

definition updateChatSession ::
  "MemStorage \<Rightarrow> int \<Rightarrow> int \<Rightarrow> ChatSessionUpdates \<Rightarrow> ChatSession option \<times> MemStorage" where
  "updateChatSession s now i updates =
     (case map_of (chatSessions s) i of
        None \<Rightarrow> (None, s)
      | Some session \<Rightarrow>
          (let updated = (applyUpdates updates session)\<lparr>cs_updatedAt := now\<rparr>
           in (Some updated, s\<lparr>chatSessions := AList.update i updated (chatSessions s)\<rparr>)))"

definition deleteChatSession :: "MemStorage \<Rightarrow> int \<Rightarrow> bool \<times> MemStorage" where
  "deleteChatSession s i =
     (let doomed = filter (\<lambda>msg. msg_sessionId msg = i) (map snd (messages s));
          remaining = fold (\<lambda>msg al. AList.delete (msg_id msg) al) doomed (messages s)
      in (map_of (chatSessions s) i \<noteq> None,
          s\<lparr>messages := remaining, chatSessions := AList.delete i (chatSessions s)\<rparr>))"

text \<open>\<open>Array.prototype.sort\<close> is stable, as is insertion sort by key.\<close>

definition getMessagesBySessionId :: "MemStorage \<Rightarrow> int \<Rightarrow> Message list" where
  "getMessagesBySessionId s sessionId =
     sort_key msg_createdAt (filter (\<lambda>msg. msg_sessionId msg = sessionId) (map snd (messages s)))"

definition createMessage :: "MemStorage \<Rightarrow> int \<Rightarrow> InsertMessage \<Rightarrow> Message \<times> MemStorage" where
  "createMessage s now insertMessage =
     (let i = currentMessageId s;
          msg = \<lparr>msg_id = i, msg_sessionId = im_sessionId insertMessage,
                 msg_role = im_role insertMessage, msg_content = im_content insertMessage,
                 msg_sources = im_sources insertMessage, msg_createdAt = now\<rparr>
      in (msg, s\<lparr>messages := AList.update i msg (messages s), currentMessageId := i + 1\<rparr>))"

text \<open>
  Every entry of the message map is stored under the id it carries: \<open>createMessage\<close> is the
  only writer, and it uses the fresh id for both.
\<close>

definition messages_keyed :: "MemStorage \<Rightarrow> bool" where
  "messages_keyed s = list_all (\<lambda>(k, msg). msg_id msg = k) (messages s)"

section \<open>Realtime gateway: the handler of an inbound WebSocket message\<close>

text \<open>
  The \<open>ws.on('message')\<close> callback of registerRoutes (\<^verbatim>\<open>src/unnamed/part_001\<close>,
  lines 177 to 245). The payload is taken at the type the protocol gives it:
  \<open>{sessionId: integer, content: string, userId: integer}\<close>.
\<close>

record chat_payload =
  p_sessionId :: int
  p_content :: jsstring
  p_userId :: int

datatype inbound = Unparseable | ChatMessageIn chat_payload | OtherMessage

datatype outbound = ErrorOut jsstring | ChatResponseOut Message Message

text \<open>The three readings of \<open>new Date()\<close> made while a message is processed.\<close>

record dates =
  at_user :: int
  at_ai :: int
  at_update :: int

text \<open>\<open>xs.slice(-n)\<close>.\<close>

definition slice_last :: "nat \<Rightarrow> 'a list \<Rightarrow> 'a list" where
  "slice_last n xs = drop (length xs - n) xs"

definition toHistory :: "Message \<Rightarrow> ChatMessage" where
  "toHistory msg = \<lparr>cm_role = msg_role msg, cm_content = msg_content msg\<rparr>"

text \<open>
  The statements after the ownership check (save the user message, retrieve, respond, save
  the answer, update the session). \<open>Inl\<close> is an exception that reaches the handler's
  \<open>catch\<close>.
\<close>

definition processChatMessage ::
  "world \<Rightarrow> MemStorage \<Rightarrow> dates \<Rightarrow> chat_payload \<Rightarrow> (error + Message \<times> Message) \<times> world \<times> MemStorage" where
  "processChatMessage w st ds p =
     (case createMessage st (at_user ds)
             \<lparr>im_sessionId = p_sessionId p, im_role = User, im_content = p_content p,
              im_sources = None\<rparr> of
        (userMessage, st1) \<Rightarrow>
          (case generateContextFromQuery w (p_content p) (p_userId p) of
             (Inl e, w1) \<Rightarrow> (Inl e, w1, st1)
           | (Inr context, w1) \<Rightarrow>
               (case generateChatResponse w1
                       (map toHistory (slice_last 10 (getMessagesBySessionId st1 (p_sessionId p))))
                       (Some context) of
                  (Inl e, w2) \<Rightarrow> (Inl e, w2, st1)
                | (Inr response, w2) \<Rightarrow>
                    (case createMessage st1 (at_ai ds)
                            \<lparr>im_sessionId = p_sessionId p, im_role = Assistant,
                             im_content = cr_content response,
                             im_sources = (if context \<noteq> [] then Some \<lparr>hasContext = True\<rparr>
                                           else None)\<rparr> of
                       (aiMessage, st2) \<Rightarrow>
                         (case updateChatSession st2 (at_update ds) (p_sessionId p)
                                 \<lparr>upd_title = None,
                                  upd_lastMessage = Some (Some (lastMessagePreview (p_content p)))\<rparr> of
                            (u, st3) \<Rightarrow> (Inr (userMessage, aiMessage), w2, st3))))))"

definition unauthorized :: outbound where
  "unauthorized = ErrorOut (lit ''Unauthorized'')"

definition processing_failed :: outbound where
  "processing_failed = ErrorOut (lit ''Failed to process message'')"

text \<open>
  The \<open>ws.on('message')\<close> callback. \<open>ws_open\<close> is \<open>ws.readyState === WebSocket.OPEN\<close>;
  the result lists the frames handed to \<open>ws.send\<close>.
\<close>

definition onMessage ::
  "world \<Rightarrow> MemStorage \<Rightarrow> bool \<Rightarrow> dates \<Rightarrow> inbound \<Rightarrow> world \<times> MemStorage \<times> outbound list" where
  "onMessage w st ws_open ds data =
     (case data of
        Unparseable \<Rightarrow> (w, st, if ws_open then [processing_failed] else [])
      | OtherMessage \<Rightarrow> (w, st, [])
      | ChatMessageIn p \<Rightarrow>
          (case getChatSession st (p_sessionId p) of
             None \<Rightarrow> (w, st, [unauthorized])
           | Some session \<Rightarrow>
               if cs_userId session \<noteq> p_userId p then (w, st, [unauthorized])
               else (case processChatMessage w st ds p of
                       (Inl e, w', st') \<Rightarrow> (w', st', if ws_open then [processing_failed] else [])
                     | (Inr (userMessage, aiMessage), w', st') \<Rightarrow>
                         (w', st', if ws_open then [ChatResponseOut userMessage aiMessage] else []))))"

section \<open>Vocabulary of the statements\<close>

text \<open>The index a fresh \<open>createIndex\<close> call leaves in the service.\<close>

definition created_index :: "world \<Rightarrow> hosted_index" where
  "created_index w = \<lparr>ix_name = indexName w, ix_dimension = 1536, ix_metric = Cosine,
                       ix_ready_at = clock w + provision_ms w, ix_records = []\<rparr>"

text \<open>The records stored under the configured index name.\<close>

definition named_records :: "world \<Rightarrow> stored_record list" where
  "named_records w = concat (map ix_records (filter (\<lambda>ix. ix_name ix = indexName w) (indexes w)))"

text \<open>The request searchSimilarChunks sends.\<close>

definition user_query :: "vector \<Rightarrow> int \<Rightarrow> nat \<Rightarrow> query_request" where
  "user_query qe u k = \<lparr>q_vector = qe, q_topK = k,
                        q_filter = \<lparr>flt_userId = Some u, flt_documentId = None\<rparr>,
                        q_includeMetadata = True\<rparr>"

text \<open>When one of the service calls made by a search is answered by an error.\<close>

definition search_fails :: "world \<Rightarrow> bool" where
  "search_fails w \<longleftrightarrow>
     pc_fails w ListIndexes
     \<or> (\<not> list_ex (\<lambda>n. n = indexName w) (map ix_name (indexes w)) \<and> pc_fails w CreateIndex)
     \<or> pc_fails w Query"

text \<open>
  Ownership of a chunk is the \<open>userId\<close> of its metadata. \<open>restrict_to u w\<close> is the world
  \<open>w\<close> with every record that user \<open>u\<close> does not own removed from the hosted indexes.
\<close>

definition owned_by :: "int \<Rightarrow> stored_metadata option \<Rightarrow> bool" where
  "owned_by u md = (case md of None \<Rightarrow> False | Some m \<Rightarrow> md_userId m = u)"

definition own_view :: "int \<Rightarrow> hosted_index \<Rightarrow> hosted_index" where
  "own_view u ix = ix\<lparr>ix_records := filter (\<lambda>r. owned_by u (st_metadata r)) (ix_records ix)\<rparr>"

definition restrict_to :: "int \<Rightarrow> world \<Rightarrow> world" where
  "restrict_to u w = w\<lparr>indexes := map (own_view u) (indexes w)\<rparr>"

section \<open>Concrete inputs\<close>

text \<open>
  A scoring function (the dot product), an index that holds chunks of users 1 and 2, and a
  world in which every service answers.
\<close>

definition dot :: "vector \<Rightarrow> vector \<Rightarrow> real" where
  "dot q v = sum_list (map (\<lambda>(a, b). a * b) (zip q v))"

definition demo_record :: "jsstring \<Rightarrow> int \<Rightarrow> real \<Rightarrow> jsstring \<Rightarrow> jsstring \<Rightarrow> stored_record" where
  "demo_record i u s name body =
     \<lparr>st_id = i, st_values = [s],
      st_metadata = Some \<lparr>md_documentId = 1, md_documentName = name, md_userId = u,
                          md_chunkIndex = 0, md_pageNumber = None, md_text = Some body\<rparr>\<rparr>"

definition demo_index :: hosted_index where
  "demo_index =
     \<lparr>ix_name = default_index_name, ix_dimension = 1536, ix_metric = Cosine, ix_ready_at = 0,
      ix_records = [demo_record (lit ''1-0'') 1 (4 / 5) (lit ''a.txt'') (lit ''alpha''),
                    demo_record (lit ''2-0'') 2 (99 / 100) (lit ''b.txt'') (lit ''bravo''),
                    demo_record (lit ''3-0'') 1 (1 / 2) (lit ''c.txt'') (lit ''gamma'')]\<rparr>"

definition demo_world :: world where
  "demo_world =
     \<lparr>clock = 0, provision_ms = 30000, env_index_name = None, indexes = [demo_index],
      pc_fails = (\<lambda>c. False), score_fn = dot,
      embeddings_create = (\<lambda>t. Some [[1]]),
      chat_completions_create =
        (\<lambda>rq. Some \<lparr>cc_choices = [Some (lit ''ok'')], cc_usage = None\<rparr>),
      readFileSync = (\<lambda>p. if p = lit ''blank.txt'' then Inr (lit '' \<newline> '')
                            else Inr (lit ''hello'')),
      splitText = (\<lambda>t. [t]),
      calls = []\<rparr>"

text \<open>What a search by user 1 returns in \<open>demo_world\<close>.\<close>

definition demo_results :: "SearchResult list" where
  "demo_results =
     [\<lparr>sr_id = lit ''1-0'', sr_score = 4 / 5,
       sr_metadata = Some \<lparr>md_documentId = 1, md_documentName = lit ''a.txt'', md_userId = 1,
                           md_chunkIndex = 0, md_pageNumber = None,
                           md_text = Some (lit ''alpha'')\<rparr>,
       sr_text = lit ''alpha''\<rparr>,
      \<lparr>sr_id = lit ''3-0'', sr_score = 1 / 2,
       sr_metadata = Some \<lparr>md_documentId = 1, md_documentName = lit ''c.txt'', md_userId = 1,
                           md_chunkIndex = 0, md_pageNumber = None,
                           md_text = Some (lit ''gamma'')\<rparr>,
       sr_text = lit ''gamma''\<rparr>]"

text \<open>Three results: above the threshold with a page, exactly on it, above it without a page.\<close>

definition demo_scored :: "SearchResult list" where
  "demo_scored =
     [\<lparr>sr_id = lit ''1-0'', sr_score = 9 / 10,
       sr_metadata = Some \<lparr>md_documentId = 1, md_documentName = lit ''a.txt'', md_userId = 1,
                           md_chunkIndex = 0, md_pageNumber = Some 3,
                           md_text = Some (lit ''alpha'')\<rparr>,
       sr_text = lit ''alpha''\<rparr>,
      \<lparr>sr_id = lit ''1-1'', sr_score = 7 / 10,
       sr_metadata = Some \<lparr>md_documentId = 1, md_documentName = lit ''a.txt'', md_userId = 1,
                           md_chunkIndex = 1, md_pageNumber = None,
                           md_text = Some (lit ''beta'')\<rparr>,
       sr_text = lit ''beta''\<rparr>,
      \<lparr>sr_id = lit ''3-0'', sr_score = 4 / 5,
       sr_metadata = Some \<lparr>md_documentId = 3, md_documentName = lit ''c.txt'', md_userId = 1,
                           md_chunkIndex = 0, md_pageNumber = None,
                           md_text = Some (lit ''gamma'')\<rparr>,
       sr_text = lit ''gamma''\<rparr>]"

text \<open>A store with one session of user 1 that holds one message, and the clock readings.\<close>

definition demo_store :: MemStorage where
  "demo_store =
     \<lparr>chatSessions = [(1, \<lparr>cs_id = 1, cs_userId = 1, cs_title = lit ''New Chat'',
                            cs_lastMessage = None, cs_createdAt = 10, cs_updatedAt = 10\<rparr>)],
      messages = [(1, \<lparr>msg_id = 1, msg_sessionId = 1, msg_role = User,
                        msg_content = lit ''hi'', msg_sources = None, msg_createdAt = 11\<rparr>),
                  (2, \<lparr>msg_id = 2, msg_sessionId = 1, msg_role = Assistant,
                        msg_content = lit ''hello'', msg_sources = None, msg_createdAt = 12\<rparr>)],
      currentSessionId = 2, currentMessageId = 3\<rparr>"

definition demo_dates :: dates where
  "demo_dates = \<lparr>at_user = 20, at_ai = 21, at_update = 22\<rparr>"

definition demo_chunk :: DocumentChunk where
  "demo_chunk = makeChunk 7 (lit ''a.txt'') 1 (lit ''hello'') 0"

section \<open>Lemmas\<close>

subsection \<open>Assembling the context\<close>

lemma join_closed_form:
  "join sep xs = (case xs of [] \<Rightarrow> [] | e # es \<Rightarrow> e @ concat (map (\<lambda>y. sep @ y) es))"
  by (induction sep xs rule: join.induct) auto

lemma formatAll_present:
  "list_all (\<lambda>r. sr_metadata r \<noteq> None) rs \<Longrightarrow>
   formatAll rs = Inr (map (\<lambda>r. lit ''['' @ md_documentName (the (sr_metadata r)) @ lit '', page ''
                         @ pageLabel (md_pageNumber (the (sr_metadata r))) @ lit '']: '' @ sr_text r) rs)"
  by (induction rs) (auto simp: formatResult_def)

lemma filter_desc_sorted:
  "sorted_wrt (\<lambda>a b. sr_score b \<le> sr_score a) rs \<Longrightarrow>
   sorted_wrt (\<lambda>a b. sr_score b \<le> sr_score a) (filter P rs)"
  by (induction rs) auto

lemma filter_desc_prefix:
  "sorted_wrt (\<lambda>a b. sr_score b \<le> sr_score a) rs \<Longrightarrow>
   filter (\<lambda>r. 7 / 10 < sr_score r) rs = takeWhile (\<lambda>r. 7 / 10 < sr_score r) rs"
proof (induction rs)
  case Nil
  then show ?case by simp
next
  case (Cons r rs)
  show ?case
  proof (cases "7 / 10 < sr_score r")
    case True
    with Cons show ?thesis by simp
  next
    case False
    with Cons.prems have "\<forall>x\<in>set rs. \<not> 7 / 10 < sr_score x" by fastforce
    then have "filter (\<lambda>r. 7 / 10 < sr_score r) rs = []" by (simp add: filter_empty_conv)
    with False show ?thesis by simp
  qed
qed

lemma contextOfResults_closed:
  assumes "list_all (\<lambda>r. sr_metadata r \<noteq> None) (filter (\<lambda>r. 7 / 10 < sr_score r) results)"
  shows "contextOfResults results =
     Inr (case map (\<lambda>r. lit ''['' @ md_documentName (the (sr_metadata r)) @ lit '', page ''
                         @ pageLabel (md_pageNumber (the (sr_metadata r))) @ lit '']: '' @ sr_text r)
                   (filter (\<lambda>r. 7 / 10 < sr_score r) results) of
            [] \<Rightarrow> []
          | e # es \<Rightarrow> e @ concat (map (\<lambda>y. lit ''\<newline>\<newline>'' @ y) es))"
proof -
  have "high_confidence = (\<lambda>r. 7 / 10 < sr_score r)"
    by (rule ext) (simp only: high_confidence_def)
  then have hc: "filter high_confidence results = filter (\<lambda>r. 7 / 10 < sr_score r) results"
    by (simp only:)
  show ?thesis
  proof (cases "results = []")
    case True
    then show ?thesis by (simp add: contextOfResults_def)
  next
    case False
    then show ?thesis
      using assms
      by (simp add: contextOfResults_def hc formatAll_present entry_separator_def
                    join_closed_form [symmetric])
  qed
qed

lemma generateContextFromQuery_success:
  assumes "fst (generateEmbedding w query) = Inr qe"
      and "fst (searchSimilarChunks (snd (generateEmbedding w query)) qe userId 5) = Inr results"
      and "contextOfResults results = Inr c"
  shows "fst (generateContextFromQuery w query userId) = Inr c"
  using assms
  by (auto simp: generateContextFromQuery_def generateContextFromQuery_try_def
           split: prod.splits sum.splits)

lemma scoreless_not_high: "m_score m = None \<Longrightarrow> \<not> high_confidence (toSearchResult m)"
  by (simp add: high_confidence_def toSearchResult_def)

lemma contextOfResults_drop_low:
  assumes "\<not> high_confidence r"
  shows "contextOfResults (pre @ r # post) = contextOfResults (pre @ post)"
proof (cases "pre @ post = []")
  case True
  with assms show ?thesis by (simp add: contextOfResults_def)
next
  case False
  with assms show ?thesis by (simp add: contextOfResults_def)
qed

subsection \<open>The system instruction\<close>

lemma label_absent_empty: "\<not> sublist context_label (cm_content (systemMessage (Some [])))"
  by code_simp

lemma label_absent_none: "\<not> sublist context_label (cm_content (systemMessage None))"
  by code_simp

lemma context_inside:
  "context \<noteq> [] \<Longrightarrow> sublist context (cm_content (systemMessage (Some context)))"
  by (simp add: systemMessage_def truthy_string_def sublist_append)

lemma label_inside:
  "context \<noteq> [] \<Longrightarrow> sublist context_label (cm_content (systemMessage (Some context)))"
  by (simp add: systemMessage_def truthy_string_def sublist_append)

lemma chat_request_sent:
  "calls (snd (generateChatResponse w history context))
     = calls w @ [EvChat \<lparr>rq_model = lit ''gpt-4o'', rq_messages = systemMessage context # history,
                          rq_temperature = 7 / 10, rq_max_tokens = 1000\<rparr>]"
  by (simp add: generateChatResponse_def Let_def record_call_def chat_model_def
           split: option.splits list.splits)

subsection \<open>Bookkeeping of the world\<close>

lemma record_call_fields [simp]:
  "indexes (record_call e w) = indexes w"
  "pc_fails (record_call e w) = pc_fails w"
  "score_fn (record_call e w) = score_fn w"
  "env_index_name (record_call e w) = env_index_name w"
  "clock (record_call e w) = clock w"
  "provision_ms (record_call e w) = provision_ms w"
  "embeddings_create (record_call e w) = embeddings_create w"
  "chat_completions_create (record_call e w) = chat_completions_create w"
  "readFileSync (record_call e w) = readFileSync w"
  "splitText (record_call e w) = splitText w"
  "calls (record_call e w) = calls w @ [e]"
  by (simp_all add: record_call_def)

lemma indexName_record_call [simp]: "indexName (record_call e w) = indexName w"
  by (simp add: indexName_def)

lemma generateEmbedding_world: "snd (generateEmbedding w t) = record_call (EvEmbed t) w"
  by (simp add: generateEmbedding_def Let_def split: option.splits list.splits)

subsection \<open>The retriever, case by case\<close>

lemma generateContextFromQuery_total: "\<exists>c. fst (generateContextFromQuery w q u) = Inr c"
  by (simp add: generateContextFromQuery_def split: prod.splits sum.splits)

lemma gcfq_unfold:
  "fst (generateContextFromQuery w q u) =
     (case fst (generateEmbedding w q) of
        Inl e \<Rightarrow> Inr []
      | Inr qe \<Rightarrow>
          (case fst (searchSimilarChunks (snd (generateEmbedding w q)) qe u 5) of
             Inl e \<Rightarrow> Inr []
           | Inr rs \<Rightarrow> (case contextOfResults rs of Inl e \<Rightarrow> Inr [] | Inr c \<Rightarrow> Inr c)))"
  by (simp add: generateContextFromQuery_def generateContextFromQuery_try_def
           split: prod.splits sum.splits)

lemma gcfq_embedding_fails:
  "fst (generateEmbedding w q) = Inl e \<Longrightarrow> fst (generateContextFromQuery w q u) = Inr []"
  by (simp add: gcfq_unfold)

lemma gcfq_search_fails:
  "fst (generateEmbedding w q) = Inr qe \<Longrightarrow>
   fst (searchSimilarChunks (snd (generateEmbedding w q)) qe u 5) = Inl e \<Longrightarrow>
   fst (generateContextFromQuery w q u) = Inr []"
  by (simp add: gcfq_unfold)

lemma contextOfResults_no_survivor:
  assumes "filter (\<lambda>r. 7 / 10 < sr_score r) rs = []"
  shows "contextOfResults rs = Inr []"
proof -
  have "list_all (\<lambda>r. sr_metadata r \<noteq> None) (filter (\<lambda>r. 7 / 10 < sr_score r) rs)"
    unfolding assms by simp
  from contextOfResults_closed [OF this] show ?thesis
    unfolding assms by simp
qed

lemma no_records_concat:
  "list_all (\<lambda>ix. ix_name ix \<noteq> n \<or> ix_records ix = []) ixs \<Longrightarrow>
   concat (map ix_records (filter (\<lambda>ix. ix_name ix = n) ixs)) = []"
proof (induction ixs)
  case Nil
  show ?case by simp
next
  case (Cons a ixs)
  from Cons.prems have here: "ix_name a \<noteq> n \<or> ix_records a = []"
    and rest: "list_all (\<lambda>ix. ix_name ix \<noteq> n \<or> ix_records ix = []) ixs"
    by (simp_all only: list.pred_inject)
  from Cons.IH [OF rest] have ih: "concat (map ix_records (filter (\<lambda>ix. ix_name ix = n) ixs)) = []" .
  show ?case
  proof (cases "ix_name a = n")
    case True
    with here have "ix_records a = []" by blast
    moreover from True have "filter (\<lambda>ix. ix_name ix = n) (a # ixs) = a # filter (\<lambda>ix. ix_name ix = n) ixs"
      by simp
    ultimately show ?thesis using ih by (simp only: list.map concat.simps append_Nil)
  next
    case False
    then have "filter (\<lambda>ix. ix_name ix = n) (a # ixs) = filter (\<lambda>ix. ix_name ix = n) ixs"
      by simp
    with ih show ?thesis by (simp only:)
  qed
qed

lemma gcfq_no_survivor:
  "fst (generateEmbedding w q) = Inr qe \<Longrightarrow>
   fst (searchSimilarChunks (snd (generateEmbedding w q)) qe u 5) = Inr rs \<Longrightarrow>
   filter (\<lambda>r. 7 / 10 < sr_score r) rs = [] \<Longrightarrow>
   fst (generateContextFromQuery w q u) = Inr []"
  by (simp add: gcfq_unfold contextOfResults_no_survivor)

lemma top_matches_Nil [simp]: "top_matches w q [] = []"
  by (simp add: top_matches_def)

subsection \<open>Index initialisation and search\<close>

lemma initializePinecone_unfold:
  "initializePinecone w =
     (if pc_fails w ListIndexes then (Inl PineconeInitFailed, record_call EvListIndexes w)
      else if list_ex (\<lambda>n. n = indexName w) (map ix_name (indexes w))
      then (Inr (indexName w), record_call EvListIndexes w)
      else if pc_fails w CreateIndex
      then (Inl PineconeInitFailed,
            record_call (EvCreateIndex (indexName w) 1536 Cosine) (record_call EvListIndexes w))
      else (Inr (indexName w),
            sleep 10000
              ((record_call (EvCreateIndex (indexName w) 1536 Cosine) (record_call EvListIndexes w))
                 \<lparr>indexes := indexes w @ [created_index w]\<rparr>)))"
  by (simp add: initializePinecone_def pc_listIndexes_def pc_createIndex_def Let_def
                created_index_def)

lemma sleep_fields [simp]:
  "indexes (sleep n w) = indexes w"
  "pc_fails (sleep n w) = pc_fails w"
  "score_fn (sleep n w) = score_fn w"
  "clock (sleep n w) = clock w + n"
  "calls (sleep n w) = calls w @ [EvSleep n]"
  by (simp_all add: sleep_def)

lemma pc_query_unfold:
  "fst (pc_query w name q) =
     (if pc_fails w Query then None
      else Some (Some (top_matches w q
              (concat (map ix_records (filter (\<lambda>ix. ix_name ix = name) (indexes w)))))))"
  by (simp add: pc_query_def Let_def)

lemma searchSimilarChunks_unfold:
  "fst (searchSimilarChunks w qe u k) =
     (case fst (initializePinecone w) of
        Inl e \<Rightarrow> Inl SearchFailed
      | Inr index \<Rightarrow>
          (case fst (pc_query (snd (initializePinecone w)) index
                       \<lparr>q_vector = qe, q_topK = k,
                        q_filter = \<lparr>flt_userId = Some u, flt_documentId = None\<rparr>,
                        q_includeMetadata = True\<rparr>) of
             None \<Rightarrow> Inl SearchFailed
           | Some matches \<Rightarrow> Inr (toSearchResults matches)))"
  by (simp add: searchSimilarChunks_def split: prod.splits sum.splits option.splits)

lemma initializePinecone_result:
  "fst (initializePinecone w) = Inl PineconeInitFailed \<or> fst (initializePinecone w) = Inr (indexName w)"
  by (simp add: initializePinecone_unfold)

lemma initializePinecone_keeps [simp]:
  "pc_fails (snd (initializePinecone w)) = pc_fails w"
  "score_fn (snd (initializePinecone w)) = score_fn w"
  by (simp_all add: initializePinecone_unfold)

lemma initializePinecone_indexes:
  "indexes (snd (initializePinecone w)) = indexes w
   \<or> (\<not> list_ex (\<lambda>n. n = indexName w) (map ix_name (indexes w))
       \<and> indexes (snd (initializePinecone w)) = indexes w @ [created_index w])"
  by (simp add: initializePinecone_unfold)

lemma named_records_after_init:
  "concat (map ix_records (filter (\<lambda>ix. ix_name ix = indexName w)
                                  (indexes (snd (initializePinecone w)))))
   = concat (map ix_records (filter (\<lambda>ix. ix_name ix = indexName w) (indexes w)))"
proof -
  have new: "ix_records (created_index w) = []"
    by (simp add: created_index_def)
  from initializePinecone_indexes [of w] show ?thesis
  proof
    assume "indexes (snd (initializePinecone w)) = indexes w"
    then show ?thesis by (simp only:)
  next
    assume "\<not> list_ex (\<lambda>n. n = indexName w) (map ix_name (indexes w))
       \<and> indexes (snd (initializePinecone w)) = indexes w @ [created_index w]"
    then have eq: "indexes (snd (initializePinecone w)) = indexes w @ [created_index w]" by blast
    show ?thesis
      unfolding eq by (simp add: new)
  qed
qed

lemma top_matches_score_fn:
  assumes "score_fn w' = score_fn w"
  shows "top_matches w' q rs = top_matches w q rs"
proof -
  have "to_match w' q = to_match w q"
    by (rule ext) (simp add: to_match_def assms)
  then show ?thesis by (simp add: top_matches_def)
qed

lemma search_outcome:
  "fst (searchSimilarChunks w qe u k) = Inl SearchFailed
   \<or> fst (searchSimilarChunks w qe u k)
       = Inr (map toSearchResult (top_matches w (user_query qe u k) (named_records w)))"
proof -
  let ?w1 = "snd (initializePinecone w)"
  have tm: "top_matches ?w1 (user_query qe u k)
              (concat (map ix_records (filter (\<lambda>ix. ix_name ix = indexName w) (indexes ?w1))))
            = top_matches w (user_query qe u k) (named_records w)"
    by (simp only: named_records_after_init named_records_def
                   top_matches_score_fn [OF initializePinecone_keeps(2)])
  from initializePinecone_result [of w] show ?thesis
  proof
    assume "fst (initializePinecone w) = Inl PineconeInitFailed"
    then show ?thesis by (simp add: searchSimilarChunks_unfold)
  next
    assume ok: "fst (initializePinecone w) = Inr (indexName w)"
    show ?thesis
    proof (cases "pc_fails w Query")
      case True
      with ok show ?thesis by (simp add: searchSimilarChunks_unfold pc_query_unfold)
    next
      case False
      with ok tm show ?thesis
        by (simp add: searchSimilarChunks_unfold pc_query_unfold toSearchResults_def
                      user_query_def)
    qed
  qed
qed

lemma search_empty_index:
  assumes "list_all (\<lambda>ix. ix_name ix \<noteq> indexName w \<or> ix_records ix = []) (indexes w)"
  shows "fst (searchSimilarChunks w qe u k) = Inl SearchFailed
       \<or> fst (searchSimilarChunks w qe u k) = Inr []"
proof -
  have "named_records w = []"
    unfolding named_records_def using assms by (rule no_records_concat)
  with search_outcome [of w qe u k] show ?thesis by simp
qed

lemma gcfq_empty_index:
  assumes "list_all (\<lambda>ix. ix_name ix \<noteq> indexName w \<or> ix_records ix = []) (indexes w)"
  shows "fst (generateContextFromQuery w q u) = Inr []"
proof (cases "fst (generateEmbedding w q)")
  case (Inl e)
  then show ?thesis by (rule gcfq_embedding_fails)
next
  case (Inr qe)
  let ?w1 = "snd (generateEmbedding w q)"
  have "list_all (\<lambda>ix. ix_name ix \<noteq> indexName ?w1 \<or> ix_records ix = []) (indexes ?w1)"
    using assms by (simp add: generateEmbedding_world)
  from search_empty_index [OF this, of qe u 5]
  show ?thesis
  proof
    assume "fst (searchSimilarChunks ?w1 qe u 5) = Inl SearchFailed"
    with Inr show ?thesis by (rule gcfq_search_fails)
  next
    assume "fst (searchSimilarChunks ?w1 qe u 5) = Inr []"
    with Inr show ?thesis by (rule gcfq_no_survivor) simp
  qed
qed

lemma initializePinecone_fails:
  "fst (initializePinecone w) = Inl PineconeInitFailed \<longleftrightarrow>
     pc_fails w ListIndexes
     \<or> (\<not> list_ex (\<lambda>n. n = indexName w) (map ix_name (indexes w)) \<and> pc_fails w CreateIndex)"
  by (simp add: initializePinecone_unfold)

lemma search_exact:
  "fst (searchSimilarChunks w qe u k) =
     (if search_fails w then Inl SearchFailed
      else Inr (map toSearchResult (top_matches w (user_query qe u k) (named_records w))))"
proof -
  let ?w1 = "snd (initializePinecone w)"
  have tm: "top_matches ?w1 (user_query qe u k)
              (concat (map ix_records (filter (\<lambda>ix. ix_name ix = indexName w) (indexes ?w1))))
            = top_matches w (user_query qe u k) (named_records w)"
    by (simp only: named_records_after_init named_records_def
                   top_matches_score_fn [OF initializePinecone_keeps(2)])
  show ?thesis
  proof (cases "fst (initializePinecone w) = Inl PineconeInitFailed")
    case True
    moreover from True have "search_fails w"
      unfolding initializePinecone_fails search_fails_def by blast
    ultimately show ?thesis by (simp add: searchSimilarChunks_unfold)
  next
    case False
    with initializePinecone_result [of w]
    have ok: "fst (initializePinecone w) = Inr (indexName w)" by blast
    from False have sf: "search_fails w = pc_fails w Query"
      unfolding initializePinecone_fails search_fails_def by blast
    show ?thesis
    proof (cases "pc_fails w Query")
      case True
      with ok sf show ?thesis by (simp add: searchSimilarChunks_unfold pc_query_unfold)
    next
      case False
      with ok tm sf show ?thesis
        by (simp add: searchSimilarChunks_unfold pc_query_unfold toSearchResults_def
                      user_query_def)
    qed
  qed
qed

lemma user_filter_owned:
  "matches_filter \<lparr>flt_userId = Some u, flt_documentId = None\<rparr> r = owned_by u (st_metadata r)"
  by (simp add: matches_filter_def owned_by_def field_ok_def split: option.splits)

lemma top_matches_owned:
  assumes "m \<in> set (top_matches w (user_query qe u k) rs)"
  shows "owned_by u (m_metadata m)"
proof -
  from assms have "m \<in> set (map (to_match w (user_query qe u k))
                      (filter (matches_filter (q_filter (user_query qe u k))) rs))"
    unfolding top_matches_def using in_set_takeD by fastforce
  then obtain r where r: "matches_filter (q_filter (user_query qe u k)) r"
    and m: "m = to_match w (user_query qe u k) r"
    by auto
  from r have "owned_by u (st_metadata r)"
    by (simp add: user_query_def user_filter_owned)
  with m show ?thesis by (simp add: to_match_def user_query_def)
qed

lemma search_results_owned:
  assumes "fst (searchSimilarChunks w qe u k) = Inr rs"
  shows "list_all (\<lambda>r. owned_by u (sr_metadata r)) rs"
proof -
  from assms have "rs = map toSearchResult (top_matches w (user_query qe u k) (named_records w))"
    by (simp add: search_exact split: if_splits)
  moreover have "\<And>m. sr_metadata (toSearchResult m) = m_metadata m"
    by (simp add: toSearchResult_def)
  ultimately show ?thesis
    using top_matches_owned by (auto simp: list_all_iff)
qed

subsection \<open>Restriction of the index to one user\<close>

lemma restrict_to_fields [simp]:
  "indexes (restrict_to u w) = map (own_view u) (indexes w)"
  "pc_fails (restrict_to u w) = pc_fails w"
  "score_fn (restrict_to u w) = score_fn w"
  "env_index_name (restrict_to u w) = env_index_name w"
  "embeddings_create (restrict_to u w) = embeddings_create w"
  by (simp_all add: restrict_to_def)

lemma indexName_restrict [simp]: "indexName (restrict_to u w) = indexName w"
  by (simp add: indexName_def)

lemma own_view_name [simp]: "ix_name (own_view u ix) = ix_name ix"
  by (simp add: own_view_def)

lemma own_view_records [simp]:
  "ix_records (own_view u ix) = filter (\<lambda>r. owned_by u (st_metadata r)) (ix_records ix)"
  by (simp add: own_view_def)

lemma names_restrict: "map ix_name (map (own_view u) ixs) = map ix_name ixs"
  by (induction ixs) simp_all

lemma search_fails_restrict: "search_fails (restrict_to u w) = search_fails w"
  unfolding search_fails_def restrict_to_fields indexName_restrict names_restrict ..

lemma named_records_view:
  "concat (map ix_records (filter (\<lambda>ix. ix_name ix = n) (map (own_view u) ixs)))
   = filter (\<lambda>r. owned_by u (st_metadata r))
       (concat (map ix_records (filter (\<lambda>ix. ix_name ix = n) ixs)))"
proof (induction ixs)
  case Nil
  show ?case by simp
next
  case (Cons a ixs)
  show ?case
  proof (cases "ix_name a = n")
    case True
    then have "filter (\<lambda>ix. ix_name ix = n) (map (own_view u) (a # ixs))
               = own_view u a # filter (\<lambda>ix. ix_name ix = n) (map (own_view u) ixs)"
      and "filter (\<lambda>ix. ix_name ix = n) (a # ixs) = a # filter (\<lambda>ix. ix_name ix = n) ixs"
      by simp_all
    with Cons.IH show ?thesis by (simp only: list.map concat.simps filter_append own_view_records)
  next
    case False
    then have "filter (\<lambda>ix. ix_name ix = n) (map (own_view u) (a # ixs))
               = filter (\<lambda>ix. ix_name ix = n) (map (own_view u) ixs)"
      and "filter (\<lambda>ix. ix_name ix = n) (a # ixs) = filter (\<lambda>ix. ix_name ix = n) ixs"
      by simp_all
    with Cons.IH show ?thesis by (simp only:)
  qed
qed

lemma named_records_restrict:
  "named_records (restrict_to u w) = filter (\<lambda>r. owned_by u (st_metadata r)) (named_records w)"
  by (simp add: named_records_def named_records_view)

lemma top_matches_restrict:
  "top_matches (restrict_to u w) (user_query qe u k) (named_records (restrict_to u w))
   = top_matches w (user_query qe u k) (named_records w)"
proof -
  have f: "matches_filter (q_filter (user_query qe u k)) = (\<lambda>r. owned_by u (st_metadata r))"
    by (rule ext) (simp add: user_query_def user_filter_owned)
  have "top_matches (restrict_to u w) (user_query qe u k) (named_records (restrict_to u w))
        = top_matches w (user_query qe u k) (named_records (restrict_to u w))"
    by (rule top_matches_score_fn) simp
  also have "\<dots> = top_matches w (user_query qe u k) (named_records w)"
    by (simp add: top_matches_def named_records_restrict f)
  finally show ?thesis .
qed

lemma search_restrict:
  "fst (searchSimilarChunks (restrict_to u w) qe u k) = fst (searchSimilarChunks w qe u k)"
  by (simp only: search_exact search_fails_restrict top_matches_restrict)

lemma generateEmbedding_fst: 
  "fst (generateEmbedding w t) =
     (case embeddings_create w t of None \<Rightarrow> Inl EmbeddingFailed
      | Some [] \<Rightarrow> Inl EmbeddingFailed | Some (v # vs) \<Rightarrow> Inr v)"
  by (simp add: generateEmbedding_def Let_def split: option.splits list.splits)

lemma restrict_record_call: "restrict_to u (record_call e w) = record_call e (restrict_to u w)"
  by (simp add: restrict_to_def record_call_def)

lemma gcfq_restrict:
  "fst (generateContextFromQuery (restrict_to u w) q u) = fst (generateContextFromQuery w q u)"
proof -
  have a: "fst (generateEmbedding (restrict_to u w) q) = fst (generateEmbedding w q)"
    by (simp add: generateEmbedding_fst)
  have b: "snd (generateEmbedding (restrict_to u w) q) = restrict_to u (snd (generateEmbedding w q))"
    by (simp only: generateEmbedding_world restrict_record_call)
  show ?thesis
    by (simp only: gcfq_unfold a b search_restrict)
qed

subsection \<open>The message handler and the store\<close>

lemma createMessage_sessions [simp]:
  "chatSessions (snd (createMessage s t im)) = chatSessions s"
  by (simp add: createMessage_def Let_def)

lemma updateChatSession_present:
  assumes "map_of (chatSessions s) i = Some session"
  shows "getChatSession (snd (updateChatSession s now i u)) i
         = Some ((applyUpdates u session)\<lparr>cs_updatedAt := now\<rparr>)"
  using assms by (simp add: updateChatSession_def getChatSession_def Let_def update_conv')

lemma processChatMessage_store:
  assumes "fst (processChatMessage w st ds p) = Inr r"
  shows "\<exists>st2. chatSessions st2 = chatSessions st
             \<and> snd (snd (processChatMessage w st ds p))
                = snd (updateChatSession st2 (at_update ds) (p_sessionId p)
                         \<lparr>upd_title = None,
                          upd_lastMessage = Some (Some (lastMessagePreview (p_content p)))\<rparr>)"
proof -
  obtain um st1 where c1: "createMessage st (at_user ds)
             \<lparr>im_sessionId = p_sessionId p, im_role = User, im_content = p_content p,
              im_sources = None\<rparr> = (um, st1)"
    by (cases "createMessage st (at_user ds)
             \<lparr>im_sessionId = p_sessionId p, im_role = User, im_content = p_content p,
              im_sources = None\<rparr>")
  then have s1: "chatSessions st1 = chatSessions st"
    using createMessage_sessions [of st "at_user ds"] by (metis snd_conv)
  obtain cr w1 where g: "generateContextFromQuery w (p_content p) (p_userId p) = (cr, w1)"
    by (cases "generateContextFromQuery w (p_content p) (p_userId p)")
  show ?thesis
  proof (cases cr)
    case (Inl e)
    with c1 g assms show ?thesis by (simp add: processChatMessage_def)
  next
    case (Inr ctx)
    obtain rr w2 where h: "generateChatResponse w1
                       (map toHistory (slice_last 10 (getMessagesBySessionId st1 (p_sessionId p))))
                       (Some ctx) = (rr, w2)"
      by (cases "generateChatResponse w1
                       (map toHistory (slice_last 10 (getMessagesBySessionId st1 (p_sessionId p))))
                       (Some ctx)")
    show ?thesis
    proof (cases rr)
      case (Inl e)
      with c1 g Inr h assms show ?thesis by (simp add: processChatMessage_def)
    next
      case (Inr response)
      obtain am st2 where c2: "createMessage st1 (at_ai ds)
                            \<lparr>im_sessionId = p_sessionId p, im_role = Assistant,
                             im_content = cr_content response,
                             im_sources = (if ctx \<noteq> [] then Some \<lparr>hasContext = True\<rparr>
                                           else None)\<rparr> = (am, st2)"
        by (cases "createMessage st1 (at_ai ds)
                            \<lparr>im_sessionId = p_sessionId p, im_role = Assistant,
                             im_content = cr_content response,
                             im_sources = (if ctx \<noteq> [] then Some \<lparr>hasContext = True\<rparr>
                                           else None)\<rparr>")
      then have s2: "chatSessions st2 = chatSessions st1"
        using createMessage_sessions [of st1 "at_ai ds"] by (metis snd_conv)
      have "snd (snd (processChatMessage w st ds p))
                = snd (updateChatSession st2 (at_update ds) (p_sessionId p)
                         \<lparr>upd_title = None,
                          upd_lastMessage = Some (Some (lastMessagePreview (p_content p)))\<rparr>)"
        using c1 g \<open>cr = Inr ctx\<close> h Inr c2
        by (simp add: processChatMessage_def split: prod.splits)
      with s1 s2 show ?thesis by auto
    qed
  qed
qed

subsection \<open>The document pipeline\<close>

lemma trim_blank: "trim s = [] \<longleftrightarrow> list_all is_js_space s"
proof -
  have "trim s = [] \<longleftrightarrow> (\<forall>x\<in>set (dropWhile is_js_space s). is_js_space x)"
    by (simp add: trim_def dropWhile_eq_Nil_conv)
  also have "\<dots> \<longleftrightarrow> dropWhile is_js_space s = []"
  proof
    assume all: "\<forall>x\<in>set (dropWhile is_js_space s). is_js_space x"
    show "dropWhile is_js_space s = []"
    proof (rule ccontr)
      assume ne: "dropWhile is_js_space s \<noteq> []"
      then have "\<not> is_js_space (hd (dropWhile is_js_space s))" by (rule hd_dropWhile)
      moreover from ne have "hd (dropWhile is_js_space s) \<in> set (dropWhile is_js_space s)"
        by (rule hd_in_set)
      ultimately show False using all by blast
    qed
  next
    assume e: "dropWhile is_js_space s = []"
    show "\<forall>x\<in>set (dropWhile is_js_space s). is_js_space x"
      unfolding e by simp
  qed
  also have "\<dots> \<longleftrightarrow> list_all is_js_space s"
    by (simp add: dropWhile_eq_Nil_conv list_all_iff)
  finally show ?thesis .
qed

lemma readDocumentText_not_empty_error:
  "fst (readDocumentText w path mime) \<noteq> Inl EmptyDocument"
  by (simp add: readDocumentText_def split: sum.splits)

lemma readDocumentText_world:
  "fst (readDocumentText w path mime) = Inr text \<Longrightarrow>
   snd (readDocumentText w path mime) = record_call (EvReadFile path) w"
  by (auto simp: readDocumentText_def split: sum.splits if_splits)

lemma readDocumentText_plain:
  "fst (readDocumentText w path mime_plain) =
     (case readFileSync w path of Inl m \<Rightarrow> Inl (FsError m) | Inr text \<Rightarrow> Inr text)"
  by (simp add: readDocumentText_def split: sum.splits)

lemma generateEmbedding_error:
  "fst (generateEmbedding w t) = Inl e \<Longrightarrow> e = EmbeddingFailed"
  by (simp add: generateEmbedding_fst split: option.splits list.splits)

lemma embedAll_fst:
  "fst (embedAll w ts) = map (\<lambda>t. fst (generateEmbedding w t)) ts"
proof (induction ts arbitrary: w)
  case Nil
  show ?case by simp
next
  case (Cons t ts)
  have same: "\<And>x. fst (generateEmbedding (record_call (EvEmbed t) w) x) = fst (generateEmbedding w x)"
    by (simp add: generateEmbedding_fst)
  obtain r w1 where g: "generateEmbedding w t = (r, w1)" by (cases "generateEmbedding w t")
  then have w1: "w1 = record_call (EvEmbed t) w"
    using generateEmbedding_world [of w t] by simp
  obtain rs w2 where e: "embedAll w1 ts = (rs, w2)" by (cases "embedAll w1 ts")
  from Cons.IH [of w1] e have "rs = map (\<lambda>t. fst (generateEmbedding w1 t)) ts" by simp
  with g e w1 same show ?case by simp
qed

lemma embedAll_calls:
  "calls (snd (embedAll w ts)) = calls w @ map EvEmbed ts"
proof (induction ts arbitrary: w)
  case Nil
  show ?case by simp
next
  case (Cons t ts)
  obtain r w1 where g: "generateEmbedding w t = (r, w1)" by (cases "generateEmbedding w t")
  then have w1: "w1 = record_call (EvEmbed t) w"
    using generateEmbedding_world [of w t] by simp
  obtain rs w2 where e: "embedAll w1 ts = (rs, w2)" by (cases "embedAll w1 ts")
  from Cons.IH [of w1] e have "calls w2 = calls w1 @ map EvEmbed ts" by simp
  with g e w1 show ?case by simp
qed

lemma promise_all_error: "promise_all rs = Inl e \<Longrightarrow> Inl e \<in> set rs"
  by (induction rs rule: promise_all.induct) (auto split: sum.splits)

lemma embedAll_promise_error:
  assumes "promise_all (fst (embedAll w ts)) = Inl e"
  shows "e = EmbeddingFailed"
proof -
  from promise_all_error [OF assms] obtain t where "fst (generateEmbedding w t) = Inl e"
    by (auto simp: embedAll_fst)
  then show ?thesis by (rule generateEmbedding_error)
qed

lemma upsertDocumentChunks_error:
  "fst (upsertDocumentChunks w cs es) = Inl e \<Longrightarrow> e = StoreChunksFailed"
  by (simp add: upsertDocumentChunks_def split: prod.splits sum.splits bool.splits)

lemma pc_upsert_calls:
  "calls (snd (pc_upsert w n vs)) = calls w @ [EvUpsert n (index_ready w n) vs]"
  by (simp add: pc_upsert_def Let_def)

lemma initializePinecone_calls: "prefix (calls w) (calls (snd (initializePinecone w)))"
  by (simp add: initializePinecone_unfold)

lemma upsertDocumentChunks_calls: "prefix (calls w) (calls (snd (upsertDocumentChunks w cs es)))"
proof -
  obtain r w1 where i: "initializePinecone w = (r, w1)" by (cases "initializePinecone w")
  then have p1: "prefix (calls w) (calls w1)"
    using initializePinecone_calls [of w] by simp
  show ?thesis
  proof (cases r)
    case (Inl e)
    with i p1 show ?thesis by (simp add: upsertDocumentChunks_def)
  next
    case (Inr index)
    let ?vs = "map (\<lambda>(chunk, i). chunk_vector es chunk i) (zip cs [0 ..< length cs])"
    have "snd (upsertDocumentChunks w cs es) = snd (pc_upsert w1 index ?vs)"
      using i Inr by (simp add: upsertDocumentChunks_def split: prod.splits bool.splits)
    then have "calls (snd (upsertDocumentChunks w cs es))
               = calls w1 @ [EvUpsert index (index_ready w1 index) ?vs]"
      by (simp only: pc_upsert_calls)
    with p1 show ?thesis by (auto simp: prefix_def)
  qed
qed

lemma pd_read_error:
  assumes "fst (readDocumentText w path mime) = Inl e"
  shows "fst (processDocument w path did name uid mime) = Inl (ProcessFailed e)"
proof -
  from assms obtain w1 where "readDocumentText w path mime = (Inl e, w1)"
    by (cases "readDocumentText w path mime") simp
  then show ?thesis by (simp add: processDocument_def processDocument_try_def)
qed

lemma pd_blank:
  assumes "fst (readDocumentText w path mime) = Inr doc" and "trim doc = []"
  shows "processDocument w path did name uid mime
         = (Inl (ProcessFailed EmptyDocument), record_call (EvReadFile path) w)"
proof -
  from assms(1) have "readDocumentText w path mime = (Inr doc, record_call (EvReadFile path) w)"
    using readDocumentText_world [of w path mime doc]
    by (cases "readDocumentText w path mime") simp
  with assms(2) show ?thesis by (simp add: processDocument_def processDocument_try_def)
qed

lemma chunk_texts:
  "map dc_text (map (\<lambda>(chunk, index). makeChunk did name uid chunk index)
                    (zip chunks [0 ..< length chunks])) = chunks"
proof -
  have "map dc_text (map (\<lambda>(chunk, index). makeChunk did name uid chunk index)
                    (zip chunks [0 ..< length chunks]))
        = map fst (zip chunks [0 ..< length chunks])"
    by (simp add: makeChunk_def case_prod_beta comp_def)
  also have "\<dots> = chunks" by (simp add: map_fst_zip)
  finally show ?thesis .
qed

lemma pd_nonblank:
  assumes rd: "fst (readDocumentText w path mime) = Inr doc" and nb: "trim doc \<noteq> []"
  shows "(\<forall>e. fst (processDocument w path did name uid mime) = Inl (ProcessFailed e)
              \<longrightarrow> e = EmbeddingFailed \<or> e = StoreChunksFailed)
       \<and> prefix (calls w @ [EvReadFile path, EvSplitText doc] @ map EvEmbed (splitText w doc))
                (calls (snd (processDocument w path did name uid mime)))"
proof -
  let ?w1 = "record_call (EvReadFile path) w"
  let ?w2 = "record_call (EvSplitText doc) ?w1"
  let ?dcs = "map (\<lambda>(chunk, index). makeChunk did name uid chunk index)
                  (zip (splitText w doc) [0 ..< length (splitText w doc)])"
  from rd have r: "readDocumentText w path mime = (Inr doc, ?w1)"
    using readDocumentText_world [of w path mime doc]
    by (cases "readDocumentText w path mime") simp
  obtain answers w3 where ea: "embedAll ?w2 (map dc_text ?dcs) = (answers, w3)"
    by (cases "embedAll ?w2 (map dc_text ?dcs)")
  have c3: "calls w3 = calls w @ [EvReadFile path, EvSplitText doc] @ map EvEmbed (splitText w doc)"
  proof -
    from ea have "embedAll ?w2 (splitText w doc) = (answers, w3)"
      unfolding chunk_texts .
    with embedAll_calls [of ?w2 "splitText w doc"] show ?thesis by simp
  qed
  have unf: "processDocument w path did name uid mime =
     (case promise_all answers of
        Inl e \<Rightarrow> (Inl (ProcessFailed e), w3)
      | Inr embeddings \<Rightarrow>
          (case upsertDocumentChunks w3 ?dcs embeddings of
             (Inl e, w4) \<Rightarrow> (Inl (ProcessFailed e), w4)
           | (Inr u, w4) \<Rightarrow> (Inr \<lparr>pd_chunks = ?dcs, pd_pageCount = Some 1\<rparr>, w4)))"
    using r nb ea
    by (simp add: processDocument_def processDocument_try_def Let_def
             split: sum.splits prod.splits)
  show ?thesis
  proof (cases "promise_all answers")
    case (Inl e)
    have "e = EmbeddingFailed"
      using embedAll_promise_error [of ?w2 "map dc_text ?dcs" e] ea Inl by simp
    with unf Inl c3 show ?thesis by simp
  next
    case (Inr embeddings)
    obtain ur w4 where up: "upsertDocumentChunks w3 ?dcs embeddings = (ur, w4)"
      by (cases "upsertDocumentChunks w3 ?dcs embeddings")
    have p: "prefix (calls w3) (calls w4)"
      using upsertDocumentChunks_calls [of w3 ?dcs embeddings] up by simp
    have err: "\<And>e. ur = Inl e \<Longrightarrow> e = StoreChunksFailed"
      using upsertDocumentChunks_error [of w3 ?dcs embeddings] up by simp
    have res: "processDocument w path did name uid mime =
                 (case ur of Inl e \<Rightarrow> (Inl (ProcessFailed e), w4)
                  | Inr u \<Rightarrow> (Inr \<lparr>pd_chunks = ?dcs, pd_pageCount = Some 1\<rparr>, w4))"
      using unf Inr up by simp
    show ?thesis
    proof (cases ur)
      case (Inl e)
      with res err p c3 show ?thesis by simp
    next
      case (Inr u)
      with res p c3 show ?thesis by simp
    qed
  qed
qed

subsection \<open>The store invariant\<close>

lemma fold_delete_set:
  "set (fold (\<lambda>msg al. AList.delete (msg_id msg) al) ds al)
     = {e \<in> set al. fst e \<notin> msg_id ` set ds}"
  by (induction ds arbitrary: al) (auto simp: AList.delete_eq)

lemma update_entries:
  "(a, b) \<in> set (AList.update k v al) \<Longrightarrow> (a, b) = (k, v) \<or> (a, b) \<in> set al"
  by (induction al) (auto split: if_splits)

lemma messages_keyed_new: "messages_keyed newMemStorage"
  by (simp add: messages_keyed_def newMemStorage_def)

lemma messages_keyed_createMessage:
  assumes "messages_keyed s"
  shows "messages_keyed (snd (createMessage s t im))"
proof -
  have "\<And>a b. (a, b) \<in> set (messages (snd (createMessage s t im))) \<Longrightarrow> msg_id b = a"
  proof -
    fix a b
    assume "(a, b) \<in> set (messages (snd (createMessage s t im)))"
    then have "(a, b) \<in> set (AList.update (currentMessageId s)
                   \<lparr>msg_id = currentMessageId s, msg_sessionId = im_sessionId im,
                    msg_role = im_role im, msg_content = im_content im,
                    msg_sources = im_sources im, msg_createdAt = t\<rparr> (messages s))"
      by (simp add: createMessage_def Let_def)
    from update_entries [OF this] assms show "msg_id b = a"
      by (auto simp: messages_keyed_def list_all_iff)
  qed
  then show ?thesis by (auto simp: messages_keyed_def list_all_iff)
qed

lemma messages_keyed_deleteChatSession:
  assumes "messages_keyed s"
  shows "messages_keyed (snd (deleteChatSession s i))"
  using assms
  by (auto simp: messages_keyed_def list_all_iff deleteChatSession_def Let_def fold_delete_set)

lemma messages_keyed_createChatSession:
  "messages_keyed s \<Longrightarrow> messages_keyed (snd (createChatSession s t ins))"
  by (simp add: messages_keyed_def createChatSession_def Let_def)

lemma messages_keyed_updateChatSession:
  "messages_keyed s \<Longrightarrow> messages_keyed (snd (updateChatSession s t i u))"
  by (simp add: messages_keyed_def updateChatSession_def Let_def split: option.splits)

lemma messages_keyed_processChatMessage:
  assumes "messages_keyed st"
  shows "messages_keyed (snd (snd (processChatMessage w st ds p)))"
proof -
  let ?im = "\<lparr>im_sessionId = p_sessionId p, im_role = User, im_content = p_content p,
              im_sources = None\<rparr>"
  obtain um st1 where c1: "createMessage st (at_user ds) ?im = (um, st1)"
    by (cases "createMessage st (at_user ds) ?im")
  have k1: "messages_keyed st1"
    using messages_keyed_createMessage [OF assms, of "at_user ds" ?im] c1 by simp
  obtain cr w1 where g: "generateContextFromQuery w (p_content p) (p_userId p) = (cr, w1)"
    by (cases "generateContextFromQuery w (p_content p) (p_userId p)")
  show ?thesis
  proof (cases cr)
    case (Inl e)
    with c1 g k1 show ?thesis by (simp add: processChatMessage_def)
  next
    case (Inr ctx)
    let ?hist = "map toHistory (slice_last 10 (getMessagesBySessionId st1 (p_sessionId p)))"
    obtain rr w2 where h: "generateChatResponse w1 ?hist (Some ctx) = (rr, w2)"
      by (cases "generateChatResponse w1 ?hist (Some ctx)")
    show ?thesis
    proof (cases rr)
      case (Inl e)
      with c1 g \<open>cr = Inr ctx\<close> h k1 show ?thesis by (simp add: processChatMessage_def)
    next
      case (Inr response)
      let ?am = "\<lparr>im_sessionId = p_sessionId p, im_role = Assistant,
                   im_content = cr_content response,
                   im_sources = (if ctx \<noteq> [] then Some \<lparr>hasContext = True\<rparr> else None)\<rparr>"
      let ?u = "\<lparr>upd_title = None,
                  upd_lastMessage = Some (Some (lastMessagePreview (p_content p)))\<rparr>"
      obtain am st2 where c2: "createMessage st1 (at_ai ds) ?am = (am, st2)"
        by (cases "createMessage st1 (at_ai ds) ?am")
      have k2: "messages_keyed st2"
        using messages_keyed_createMessage [OF k1, of "at_ai ds" ?am] c2 by simp
      have "snd (snd (processChatMessage w st ds p))
            = snd (updateChatSession st2 (at_update ds) (p_sessionId p) ?u)"
        using c1 g \<open>cr = Inr ctx\<close> h Inr c2
        by (simp add: processChatMessage_def split: prod.splits)
      with messages_keyed_updateChatSession [OF k2, of "at_update ds" "p_sessionId p" ?u]
      show ?thesis by simp
    qed
  qed
qed

lemma messages_keyed_onMessage:
  assumes "messages_keyed st"
  shows "messages_keyed (fst (snd (onMessage w st ws_open ds data)))"
proof (cases data)
  case Unparseable
  with assms show ?thesis by (simp add: onMessage_def)
next
  case OtherMessage
  with assms show ?thesis by (simp add: onMessage_def)
next
  case (ChatMessageIn p)
  have "fst (snd (onMessage w st ws_open ds (ChatMessageIn p))) = st
        \<or> fst (snd (onMessage w st ws_open ds (ChatMessageIn p)))
           = snd (snd (processChatMessage w st ds p))"
    by (simp add: onMessage_def split: option.splits prod.splits sum.splits)
  with ChatMessageIn assms messages_keyed_processChatMessage [OF assms, of w ds p]
  show ?thesis by auto
qed

subsection \<open>The concrete world\<close>

lemma demo_embedding: "fst (generateEmbedding demo_world q) = Inr [1]"
  by (simp add: generateEmbedding_fst demo_world_def)

lemma demo_search: "fst (searchSimilarChunks (record_call e demo_world) [1] 1 5) = Inr demo_results"
  by (simp add: search_exact search_fails_def demo_world_def demo_index_def demo_record_def
        indexName_def truthy_string_def named_records_def top_matches_def user_query_def
        matches_filter_def field_ok_def to_match_def dot_def toSearchResult_def demo_results_def)

lemma demo_context:
  "contextOfResults demo_results = Inr (lit ''[a.txt, page unknown]: alpha'')"
  by (simp add: contextOfResults_def demo_results_def high_confidence_def formatResult_def
                pageLabel_def lit_def)

subsection \<open>The first write to a new index\<close>

lemma index_ready_after_create:
  assumes "\<not> list_ex (\<lambda>n. n = indexName w) (map ix_name (indexes w))"
  shows "index_ready (w\<lparr>indexes := indexes w @ [created_index w], clock := clock w + d\<rparr>) (indexName w)
         \<longleftrightarrow> provision_ms w \<le> d"
proof -
  from assms have "indexName w \<notin> ix_name ` set (indexes w)"
    by (simp add: list_ex_iff)
  then have "\<forall>ix\<in>set (indexes w). ix_name ix \<noteq> indexName w"
    by (metis imageI)
  then have "\<not> list_ex (\<lambda>ix. ix_name ix = indexName w \<and> ix_ready_at ix \<le> clock w + d) (indexes w)"
    unfolding list_ex_iff by (metis (mono_tags))
  then show ?thesis
    by (simp add: index_ready_def created_index_def)
qed

lemma upsert_cold_calls:
  assumes absent: "\<not> list_ex (\<lambda>n. n = indexName w) (map ix_name (indexes w))"
      and "\<not> pc_fails w ListIndexes" and "\<not> pc_fails w CreateIndex"
  shows "calls (snd (upsertDocumentChunks w cs es)) =
           calls w @ [EvListIndexes, EvCreateIndex (indexName w) 1536 Cosine, EvSleep 10000,
                      EvUpsert (indexName w) (provision_ms w \<le> 10000)
                        (map (\<lambda>(chunk, i). chunk_vector es chunk i) (zip cs [0 ..< length cs]))]"
proof -
  let ?w3 = "sleep 10000
              ((record_call (EvCreateIndex (indexName w) 1536 Cosine) (record_call EvListIndexes w))
                 \<lparr>indexes := indexes w @ [created_index w]\<rparr>)"
  let ?vs = "map (\<lambda>(chunk, i). chunk_vector es chunk i) (zip cs [0 ..< length cs])"
  have i: "initializePinecone w = (Inr (indexName w), ?w3)"
    using assms by (simp add: initializePinecone_unfold)
  have r: "index_ready ?w3 (indexName w) \<longleftrightarrow> provision_ms w \<le> 10000"
    using index_ready_after_create [OF absent, of 10000]
    by (simp add: index_ready_def sleep_def record_call_def)
  have "snd (upsertDocumentChunks w cs es) = snd (pc_upsert ?w3 (indexName w) ?vs)"
    using i by (simp add: upsertDocumentChunks_def split: prod.splits bool.splits)
  then have "calls (snd (upsertDocumentChunks w cs es))
             = calls ?w3 @ [EvUpsert (indexName w) (index_ready ?w3 (indexName w)) ?vs]"
    by (simp only: pc_upsert_calls)
  with r show ?thesis by simp
qed

subsection \<open>Success of the message handler\<close>

lemma sleep_chat [simp]: "chat_completions_create (sleep n w) = chat_completions_create w"
  by (simp add: sleep_def)

lemma initializePinecone_chat [simp]:
  "chat_completions_create (snd (initializePinecone w)) = chat_completions_create w"
  by (simp add: initializePinecone_unfold)

lemma pc_query_chat [simp]:
  "chat_completions_create (snd (pc_query w n q)) = chat_completions_create w"
  by (simp add: pc_query_def Let_def)

lemma searchSimilarChunks_snd:
  "snd (searchSimilarChunks w qe u k) =
     (case fst (initializePinecone w) of
        Inl e \<Rightarrow> snd (initializePinecone w)
      | Inr index \<Rightarrow> snd (pc_query (snd (initializePinecone w)) index (user_query qe u k)))"
  by (simp add: searchSimilarChunks_def user_query_def split: prod.splits sum.splits option.splits)

lemma searchSimilarChunks_chat [simp]:
  "chat_completions_create (snd (searchSimilarChunks w qe u k)) = chat_completions_create w"
  by (simp add: searchSimilarChunks_snd split: sum.splits)

lemma gcfq_snd:
  "snd (generateContextFromQuery w q u) =
     (case fst (generateEmbedding w q) of
        Inl e \<Rightarrow> snd (generateEmbedding w q)
      | Inr qe \<Rightarrow> snd (searchSimilarChunks (snd (generateEmbedding w q)) qe u 5))"
  by (simp add: generateContextFromQuery_def generateContextFromQuery_try_def
           split: prod.splits sum.splits)

lemma gcfq_chat [simp]:
  "chat_completions_create (snd (generateContextFromQuery w q u)) = chat_completions_create w"
  by (simp add: gcfq_snd generateEmbedding_world split: sum.splits)

lemma generateChatResponse_fst:
  "fst (generateChatResponse w history c) =
     (case chat_completions_create w
             \<lparr>rq_model = chat_model, rq_messages = systemMessage c # history,
              rq_temperature = 7 / 10, rq_max_tokens = 1000\<rparr> of
        None \<Rightarrow> Inl ChatResponseFailed
      | Some response \<Rightarrow>
          (case cc_choices response of
             [] \<Rightarrow> Inl ChatResponseFailed
           | ch # rest \<Rightarrow> Inr \<lparr>cr_content = (case ch of None \<Rightarrow> [] | Some s \<Rightarrow> s),
                                 cr_usage = cc_usage response\<rparr>))"
  by (simp add: generateChatResponse_def Let_def split: option.splits list.splits)

lemma processChatMessage_fst:
  "isl (fst (processChatMessage w st ds p)) =
     isl (fst (generateChatResponse (snd (generateContextFromQuery w (p_content p) (p_userId p)))
            (map toHistory (slice_last 10 (getMessagesBySessionId
               (snd (createMessage st (at_user ds)
                  \<lparr>im_sessionId = p_sessionId p, im_role = User, im_content = p_content p,
                   im_sources = None\<rparr>)) (p_sessionId p))))
            (Some (projr (fst (generateContextFromQuery w (p_content p) (p_userId p)))))))"
proof -
  obtain c where c: "fst (generateContextFromQuery w (p_content p) (p_userId p)) = Inr c"
    using generateContextFromQuery_total by blast
  obtain w1 where g: "generateContextFromQuery w (p_content p) (p_userId p) = (Inr c, w1)"
    using c by (cases "generateContextFromQuery w (p_content p) (p_userId p)") simp
  show ?thesis
    by (simp add: processChatMessage_def g split: prod.splits sum.splits)
qed

lemma processChatMessage_succeeds:
  assumes "\<And>rq. \<exists>ch rest u. chat_completions_create w rq
                      = Some \<lparr>cc_choices = ch # rest, cc_usage = u\<rparr>"
  shows "\<not> isl (fst (processChatMessage w st ds p))"
proof -
  have "\<And>w' history c. chat_completions_create w' = chat_completions_create w \<Longrightarrow>
          \<not> isl (fst (generateChatResponse w' history c))"
  proof -
    fix w' :: world and history c
    assume same: "chat_completions_create w' = chat_completions_create w"
    from assms obtain ch rest u where
      "chat_completions_create w \<lparr>rq_model = chat_model, rq_messages = systemMessage c # history,
              rq_temperature = 7 / 10, rq_max_tokens = 1000\<rparr>
       = Some \<lparr>cc_choices = ch # rest, cc_usage = u\<rparr>"
      by blast
    then show "\<not> isl (fst (generateChatResponse w' history c))"
      by (simp add: generateChatResponse_fst same)
  qed
  then show ?thesis
    by (simp add: processChatMessage_fst)
qed

lemma onMessage_store:
  assumes "getChatSession st (p_sessionId p) = Some session"
      and "cs_userId session = p_userId p"
  shows "fst (snd (onMessage w st ws_open ds (ChatMessageIn p)))
         = snd (snd (processChatMessage w st ds p))"
  using assms by (simp add: onMessage_def split: prod.splits sum.splits)

lemma onMessage_frames:
  assumes "getChatSession st (p_sessionId p) = Some session"
      and "cs_userId session = p_userId p"
      and "\<not> isl (fst (processChatMessage w st ds p))"
  shows "\<exists>userMessage aiMessage.
           snd (snd (onMessage w st True ds (ChatMessageIn p)))
           = [ChatResponseOut userMessage aiMessage]"
proof -
  from assms(3) obtain r where "fst (processChatMessage w st ds p) = Inr r"
    by (cases "fst (processChatMessage w st ds p)") simp_all
  then obtain um am w' st' where "processChatMessage w st ds p = (Inr (um, am), w', st')"
    by (cases "processChatMessage w st ds p"; cases r) auto
  with assms(1,2) show ?thesis by (simp add: onMessage_def)
qed

subsection \<open>Session deletion\<close>

lemma deleted_none_left:
  assumes "messages_keyed s"
  shows "filter (\<lambda>msg. msg_sessionId msg = i) (map snd (messages (snd (deleteChatSession s i)))) = []"
proof -
  let ?doomed = "filter (\<lambda>msg. msg_sessionId msg = i) (map snd (messages s))"
  let ?rem = "fold (\<lambda>msg al. AList.delete (msg_id msg) al) ?doomed (messages s)"
  have keyed: "\<And>k msg. (k, msg) \<in> set (messages s) \<Longrightarrow> msg_id msg = k"
    using assms by (auto simp: messages_keyed_def list_all_iff)
  have "filter (\<lambda>msg. msg_sessionId msg = i) (map snd ?rem) = []"
  proof (rule ccontr)
    assume "filter (\<lambda>msg. msg_sessionId msg = i) (map snd ?rem) \<noteq> []"
    then obtain msg where "msg \<in> set (map snd ?rem)" and sid: "msg_sessionId msg = i"
      by (metis (mono_tags, lifting) filter_False)
    then obtain k where in_rem: "(k, msg) \<in> set ?rem" by auto
    then have mem: "(k, msg) \<in> set (messages s)" and out: "k \<notin> msg_id ` set ?doomed"
      by (auto simp: fold_delete_set)
    from mem keyed have "msg_id msg = k" by simp
    moreover from mem sid have "msg \<in> set ?doomed" by force
    ultimately show False using out by blast
  qed
  then show ?thesis by (simp add: deleteChatSession_def Let_def)
qed

section \<open>Claims\<close>

subsection \<open>C1: multi-tenant isolation of the Context Retriever\<close>

text \<open>
  C1. Whatever the index holds, a search made for \<open>userId\<close> returns only results whose
  metadata \<open>userId\<close> is the querying one, the context string is computed from those results
  and nothing else, and removing every record of every other user from the index leaves the
  context unchanged: the restriction is a filter of the search, independent of the scores.
\<close>

theorem tenant_isolation:
  assumes "fst (generateEmbedding w query) = Inr qe"
      and "fst (searchSimilarChunks (snd (generateEmbedding w query)) qe userId 5) = Inr results"
  shows "list_all (\<lambda>r. owned_by userId (sr_metadata r)) results
       \<and> fst (generateContextFromQuery w query userId)
           = (case contextOfResults results of Inl e \<Rightarrow> Inr [] | Inr c \<Rightarrow> Inr c)
       \<and> fst (generateContextFromQuery (restrict_to userId w) query userId)
           = fst (generateContextFromQuery w query userId)"
proof -
  have a: "list_all (\<lambda>r. owned_by userId (sr_metadata r)) results"
    using assms(2) by (rule search_results_owned)
  have b: "fst (generateContextFromQuery w query userId)
           = (case contextOfResults results of Inl e \<Rightarrow> Inr [] | Inr c \<Rightarrow> Inr c)"
    using assms by (simp add: gcfq_unfold)
  from a b gcfq_restrict [of userId w query] show ?thesis by blast
qed

text \<open>
  In \<open>demo_world\<close> the best-scoring chunk (0.99) belongs to user 2; the search of user 1
  returns the two chunks of user 1 only, and the context holds the one above the threshold.
\<close>

theorem tenant_isolation_witness:
  "list_all (\<lambda>r. owned_by 1 (sr_metadata r)) demo_results
   \<and> map sr_id demo_results = [lit ''1-0'', lit ''3-0'']
   \<and> fst (generateContextFromQuery demo_world (lit ''q'') 1)
       = Inr (lit ''[a.txt, page unknown]: alpha'')
   \<and> fst (generateContextFromQuery (restrict_to 1 demo_world) (lit ''q'') 1)
       = fst (generateContextFromQuery demo_world (lit ''q'') 1)"
proof -
  have e: "fst (generateEmbedding demo_world (lit ''q'')) = Inr [1]"
    by (rule demo_embedding)
  have s: "fst (searchSimilarChunks (snd (generateEmbedding demo_world (lit ''q''))) [1] 1 5)
           = Inr demo_results"
    by (simp only: generateEmbedding_world demo_search)
  from tenant_isolation [OF e s] demo_context show ?thesis
    by (simp add: demo_results_def)
qed

subsection \<open>C2: retrieval is best-effort\<close>

text \<open>
  C2. generateContextFromQuery always returns a string and never raises. It returns the
  empty string when the query embedding fails, when the index search fails, when the search
  returns nothing or nothing with a score above 0.7, and when the index holds no record
  (or does not exist yet).
\<close>

theorem retrieval_best_effort:
  "(\<exists>c. fst (generateContextFromQuery w query userId) = Inr c)
   \<and> ((\<exists>e. fst (generateEmbedding w query) = Inl e)
        \<longrightarrow> fst (generateContextFromQuery w query userId) = Inr [])
   \<and> (\<forall>qe. fst (generateEmbedding w query) = Inr qe \<longrightarrow>
         (\<forall>e. fst (searchSimilarChunks (snd (generateEmbedding w query)) qe userId 5) = Inl e
               \<longrightarrow> fst (generateContextFromQuery w query userId) = Inr [])
       \<and> (\<forall>rs. fst (searchSimilarChunks (snd (generateEmbedding w query)) qe userId 5) = Inr rs
                 \<and> filter (\<lambda>r. 7 / 10 < sr_score r) rs = []
               \<longrightarrow> fst (generateContextFromQuery w query userId) = Inr []))
   \<and> (list_all (\<lambda>ix. ix_name ix \<noteq> indexName w \<or> ix_records ix = []) (indexes w)
        \<longrightarrow> fst (generateContextFromQuery w query userId) = Inr [])"
proof -
  have a: "\<exists>c. fst (generateContextFromQuery w query userId) = Inr c"
    by (rule generateContextFromQuery_total)
  have b: "(\<exists>e. fst (generateEmbedding w query) = Inl e)
        \<longrightarrow> fst (generateContextFromQuery w query userId) = Inr []"
    using gcfq_embedding_fails by blast
  have c: "\<forall>qe. fst (generateEmbedding w query) = Inr qe \<longrightarrow>
         (\<forall>e. fst (searchSimilarChunks (snd (generateEmbedding w query)) qe userId 5) = Inl e
               \<longrightarrow> fst (generateContextFromQuery w query userId) = Inr [])
       \<and> (\<forall>rs. fst (searchSimilarChunks (snd (generateEmbedding w query)) qe userId 5) = Inr rs
                 \<and> filter (\<lambda>r. 7 / 10 < sr_score r) rs = []
               \<longrightarrow> fst (generateContextFromQuery w query userId) = Inr [])"
    using gcfq_search_fails gcfq_no_survivor by blast
  have d: "list_all (\<lambda>ix. ix_name ix \<noteq> indexName w \<or> ix_records ix = []) (indexes w)
        \<longrightarrow> fst (generateContextFromQuery w query userId) = Inr []"
    using gcfq_empty_index by blast
  from a b c d show ?thesis by blast
qed

text \<open>
  Five runs that end with the empty string: the embedding API fails; the index query fails;
  user 3 owns no chunk; the chunks of user 1 score 0.4 and 0.25; no index exists.
\<close>

theorem retrieval_best_effort_witness:
  "fst (generateContextFromQuery (demo_world\<lparr>embeddings_create := (\<lambda>t. None)\<rparr>) (lit ''q'') 1) = Inr []
   \<and> fst (generateContextFromQuery (demo_world\<lparr>pc_fails := (\<lambda>c. c = Query)\<rparr>) (lit ''q'') 1) = Inr []
   \<and> fst (generateContextFromQuery demo_world (lit ''q'') 3) = Inr []
   \<and> fst (generateContextFromQuery (demo_world\<lparr>embeddings_create := (\<lambda>t. Some [[1 / 2]])\<rparr>)
            (lit ''q'') 1) = Inr []
   \<and> fst (generateContextFromQuery (demo_world\<lparr>indexes := []\<rparr>) (lit ''q'') 1) = Inr []"
proof -
  let ?q = "lit ''q''"
  let ?A = "demo_world\<lparr>embeddings_create := (\<lambda>t. None)\<rparr>"
  let ?B = "demo_world\<lparr>pc_fails := (\<lambda>c. c = Query)\<rparr>"
  let ?D = "demo_world\<lparr>embeddings_create := (\<lambda>t. Some [[1 / 2]])\<rparr>"
  let ?E = "demo_world\<lparr>indexes := []\<rparr>"
  have a: "\<exists>e. fst (generateEmbedding ?A ?q) = Inl e"
    by (simp add: generateEmbedding_fst)
  have b1: "fst (generateEmbedding ?B ?q) = Inr [1]"
    by (simp add: generateEmbedding_fst demo_world_def)
  have b2: "fst (searchSimilarChunks (snd (generateEmbedding ?B ?q)) [1] 1 5) = Inl SearchFailed"
    by (simp add: generateEmbedding_world search_exact search_fails_def)
  have c1: "fst (generateEmbedding demo_world ?q) = Inr [1]"
    by (rule demo_embedding)
  have c2: "fst (searchSimilarChunks (snd (generateEmbedding demo_world ?q)) [1] 3 5) = Inr []"
    by (simp add: generateEmbedding_world search_exact search_fails_def demo_world_def
          demo_index_def demo_record_def indexName_def truthy_string_def named_records_def
          top_matches_def user_query_def matches_filter_def field_ok_def)
  have d1: "fst (generateEmbedding ?D ?q) = Inr [1 / 2]"
    by (simp add: generateEmbedding_fst)
  obtain rs where d2: "fst (searchSimilarChunks (snd (generateEmbedding ?D ?q)) [1 / 2] 1 5) = Inr rs"
    and d3: "filter (\<lambda>r. 7 / 10 < sr_score r) rs = []"
    by (simp add: generateEmbedding_world search_exact search_fails_def demo_world_def
          demo_index_def demo_record_def indexName_def truthy_string_def named_records_def
          top_matches_def user_query_def matches_filter_def field_ok_def to_match_def dot_def
          toSearchResult_def)
  have e: "list_all (\<lambda>ix. ix_name ix \<noteq> indexName ?E \<or> ix_records ix = []) (indexes ?E)"
    by simp
  from retrieval_best_effort [of ?A ?q 1] a
  have ra: "fst (generateContextFromQuery ?A ?q 1) = Inr []" by blast
  from retrieval_best_effort [of ?B ?q 1] b1 b2
  have rb: "fst (generateContextFromQuery ?B ?q 1) = Inr []" by blast
  from retrieval_best_effort [of demo_world ?q 3] c1 c2
  have rc: "fst (generateContextFromQuery demo_world ?q 3) = Inr []" by simp
  from retrieval_best_effort [of ?D ?q 1] d1 d2 d3
  have rd: "fst (generateContextFromQuery ?D ?q 1) = Inr []" by blast
  from retrieval_best_effort [of ?E ?q 1] e
  have re: "fst (generateContextFromQuery ?E ?q 1) = Inr []" by blast
  from ra rb rc rd re show ?thesis by simp
qed

subsection \<open>C3: a chat message for a session the user does not own\<close>

text \<open>
  C3. When the session of an inbound \<open>chat_message\<close> is absent or belongs to another user,
  the handler hands exactly one frame to the socket, the error \<open>Unauthorized\<close>, and does
  nothing else: the store is the one it started with (no user message, no assistant message,
  the session record untouched, the same number of messages in the session) and no external
  service has been called.
\<close>

theorem unauthorized_message_rejected:
  assumes "getChatSession st (p_sessionId p) = None
           \<or> (\<exists>session. getChatSession st (p_sessionId p) = Some session
                         \<and> cs_userId session \<noteq> p_userId p)"
  shows "onMessage w st ws_open ds (ChatMessageIn p) = (w, st, [ErrorOut (lit ''Unauthorized'')])
       \<and> length (getMessagesBySessionId (fst (snd (onMessage w st ws_open ds (ChatMessageIn p))))
                   (p_sessionId p))
           = length (getMessagesBySessionId st (p_sessionId p))
       \<and> messages (fst (snd (onMessage w st ws_open ds (ChatMessageIn p)))) = messages st
       \<and> chatSessions (fst (snd (onMessage w st ws_open ds (ChatMessageIn p)))) = chatSessions st
       \<and> calls (fst (onMessage w st ws_open ds (ChatMessageIn p))) = calls w"
proof -
  have "onMessage w st ws_open ds (ChatMessageIn p) = (w, st, [ErrorOut (lit ''Unauthorized'')])"
    using assms by (auto simp: onMessage_def unauthorized_def split: option.splits)
  then show ?thesis by simp
qed

text \<open>
  User 2 writes to session 1 of user 1, and user 1 writes to a session that does not exist:
  both are refused and the two stored messages of session 1 stay two.
\<close>

theorem unauthorized_message_rejected_witness:
  "onMessage demo_world demo_store True demo_dates
     (ChatMessageIn \<lparr>p_sessionId = 1, p_content = lit ''hello'', p_userId = 2\<rparr>)
     = (demo_world, demo_store, [ErrorOut (lit ''Unauthorized'')])
   \<and> onMessage demo_world demo_store True demo_dates
     (ChatMessageIn \<lparr>p_sessionId = 9, p_content = lit ''hello'', p_userId = 1\<rparr>)
     = (demo_world, demo_store, [ErrorOut (lit ''Unauthorized'')])
   \<and> length (getMessagesBySessionId demo_store 1) = 2"
proof -
  let ?p = "\<lparr>p_sessionId = 1, p_content = lit ''hello'', p_userId = 2\<rparr>"
  let ?q = "\<lparr>p_sessionId = 9, p_content = lit ''hello'', p_userId = 1\<rparr>"
  have a: "getChatSession demo_store (p_sessionId ?p) = None
           \<or> (\<exists>session. getChatSession demo_store (p_sessionId ?p) = Some session
                         \<and> cs_userId session \<noteq> p_userId ?p)"
    by (simp add: getChatSession_def demo_store_def)
  have b: "getChatSession demo_store (p_sessionId ?q) = None
           \<or> (\<exists>session. getChatSession demo_store (p_sessionId ?q) = Some session
                         \<and> cs_userId session \<noteq> p_userId ?q)"
    by (simp add: getChatSession_def demo_store_def)
  have c: "length (getMessagesBySessionId demo_store 1) = 2"
    by (simp add: getMessagesBySessionId_def demo_store_def)
  from unauthorized_message_rejected [OF a, of demo_world True demo_dates]
       unauthorized_message_rejected [OF b, of demo_world True demo_dates] c
  show ?thesis by simp
qed

subsection \<open>C4: assembling the context\<close>

text \<open>
  C4. For every list of search results whose entries above the threshold carry metadata (as
  the type \<open>SearchResult\<close> promises), the context is built from exactly the results with a
  score strictly above 0.7, in the order of the list: each is written
  \<open>[documentName, page N]: chunkText\<close>, where \<open>N\<close> is the page number or \<open>unknown\<close>, and
  consecutive entries are separated by two line feeds. A list in descending score order
  keeps that order, the survivors being a prefix of it. generateContextFromQuery returns
  this string whenever the embedding and the search succeed with that list.
\<close>

theorem context_assembly:
  assumes "list_all (\<lambda>r. sr_metadata r \<noteq> None) (filter (\<lambda>r. 7 / 10 < sr_score r) results)"
  shows "contextOfResults results =
           Inr (case map (\<lambda>r. lit ''['' @ md_documentName (the (sr_metadata r)) @ lit '', page ''
                              @ pageLabel (md_pageNumber (the (sr_metadata r))) @ lit '']: ''
                              @ sr_text r)
                         (filter (\<lambda>r. 7 / 10 < sr_score r) results) of
                  [] \<Rightarrow> []
                | e # es \<Rightarrow> e @ concat (map (\<lambda>y. lit ''\<newline>\<newline>'' @ y) es))
       \<and> (sorted_wrt (\<lambda>a b. sr_score b \<le> sr_score a) results \<longrightarrow>
            sorted_wrt (\<lambda>a b. sr_score b \<le> sr_score a) (filter (\<lambda>r. 7 / 10 < sr_score r) results)
          \<and> filter (\<lambda>r. 7 / 10 < sr_score r) results
              = takeWhile (\<lambda>r. 7 / 10 < sr_score r) results)
       \<and> (\<forall>w query userId qe.
             fst (generateEmbedding w query) = Inr qe
           \<and> fst (searchSimilarChunks (snd (generateEmbedding w query)) qe userId 5) = Inr results
           \<longrightarrow> fst (generateContextFromQuery w query userId) = contextOfResults results)"
proof -
  have a: "contextOfResults results =
           Inr (case map (\<lambda>r. lit ''['' @ md_documentName (the (sr_metadata r)) @ lit '', page ''
                              @ pageLabel (md_pageNumber (the (sr_metadata r))) @ lit '']: ''
                              @ sr_text r)
                         (filter (\<lambda>r. 7 / 10 < sr_score r) results) of
                  [] \<Rightarrow> []
                | e # es \<Rightarrow> e @ concat (map (\<lambda>y. lit ''\<newline>\<newline>'' @ y) es))"
    using assms by (rule contextOfResults_closed)
  have b: "sorted_wrt (\<lambda>a b. sr_score b \<le> sr_score a) results \<longrightarrow>
            sorted_wrt (\<lambda>a b. sr_score b \<le> sr_score a) (filter (\<lambda>r. 7 / 10 < sr_score r) results)
          \<and> filter (\<lambda>r. 7 / 10 < sr_score r) results
              = takeWhile (\<lambda>r. 7 / 10 < sr_score r) results"
    using filter_desc_sorted filter_desc_prefix by blast
  have c: "\<forall>w query userId qe.
             fst (generateEmbedding w query) = Inr qe
           \<and> fst (searchSimilarChunks (snd (generateEmbedding w query)) qe userId 5) = Inr results
           \<longrightarrow> fst (generateContextFromQuery w query userId) = contextOfResults results"
  proof (intro allI impI)
    fix w query userId qe
    assume h: "fst (generateEmbedding w query) = Inr qe
           \<and> fst (searchSimilarChunks (snd (generateEmbedding w query)) qe userId 5) = Inr results"
    from h have h1: "fst (generateEmbedding w query) = Inr qe"
      and h2: "fst (searchSimilarChunks (snd (generateEmbedding w query)) qe userId 5) = Inr results"
      by blast+
    from generateContextFromQuery_success [OF h1 h2 a]
    show "fst (generateContextFromQuery w query userId) = contextOfResults results"
      by (simp only: a)
  qed
  from a b c show ?thesis by blast
qed

text \<open>
  Scores 0.9, 0.7 and 0.8: the result that sits exactly on the threshold is dropped, the
  other two are written in the order of the list.
\<close>

theorem context_assembly_witness:
  "contextOfResults demo_scored
     = Inr (lit ''[a.txt, page 3]: alpha\<newline>\<newline>[c.txt, page unknown]: gamma'')
   \<and> map sr_id (filter (\<lambda>r. 7 / 10 < sr_score r) demo_scored) = [lit ''1-0'', lit ''3-0'']
   \<and> list_all (\<lambda>r. sr_metadata r \<noteq> None) (filter (\<lambda>r. 7 / 10 < sr_score r) demo_scored)"
proof -
  have h: "list_all (\<lambda>r. sr_metadata r \<noteq> None) (filter (\<lambda>r. 7 / 10 < sr_score r) demo_scored)"
    by (simp add: demo_scored_def)
  have three: "numberToString 3 = lit ''3''"
    by (simp add: numberToString_def decimal.simps digit_unit_def lit_def)
  from context_assembly [OF h] have "contextOfResults demo_scored =
           Inr (case map (\<lambda>r. lit ''['' @ md_documentName (the (sr_metadata r)) @ lit '', page ''
                              @ pageLabel (md_pageNumber (the (sr_metadata r))) @ lit '']: ''
                              @ sr_text r)
                         (filter (\<lambda>r. 7 / 10 < sr_score r) demo_scored) of
                  [] \<Rightarrow> []
                | e # es \<Rightarrow> e @ concat (map (\<lambda>y. lit ''\<newline>\<newline>'' @ y) es))"
    by blast
  then have "contextOfResults demo_scored
     = Inr (lit ''[a.txt, page 3]: alpha\<newline>\<newline>[c.txt, page unknown]: gamma'')"
    by (simp add: demo_scored_def pageLabel_def three) (simp add: lit_def)
  with h show ?thesis by (simp add: demo_scored_def)
qed

subsection \<open>C5: the system instruction of the Chat Responder\<close>

text \<open>
  C5. With a non-empty context the system instruction contains the context string verbatim,
  under the label \<open>Here is relevant context from the user's documents:\<close>. With an empty or
  absent context the instruction is one fixed text, in which that label does not occur. In
  every case the request sent to the chat-completion API lists the instruction first, with
  role \<open>system\<close>, followed by the history as given.
\<close>

theorem system_instruction:
  assumes "ctx \<noteq> []"
  shows "sublist ctx (cm_content (systemMessage (Some ctx)))
       \<and> sublist context_label (cm_content (systemMessage (Some ctx)))
       \<and> \<not> sublist context_label (cm_content (systemMessage (Some [])))
       \<and> \<not> sublist context_label (cm_content (systemMessage None))
       \<and> cm_content (systemMessage (Some [])) = cm_content (systemMessage None)
       \<and> cm_content (systemMessage None) = lit ''You are a helpful AI assistant powered by GPT-4. You have access to a knowledge base through RAG (Retrieval-Augmented Generation).\<newline>      \<newline>      Provide helpful and accurate responses to user queries.\<newline>      \<newline>      Always be concise, helpful, and cite sources when using information from the provided context.''
       \<and> cm_role (systemMessage c) = System
       \<and> calls (snd (generateChatResponse w history c))
           = calls w @ [EvChat \<lparr>rq_model = lit ''gpt-4o'',
                                rq_messages = systemMessage c # history,
                                rq_temperature = 7 / 10, rq_max_tokens = 1000\<rparr>]"
proof -
  have a: "sublist ctx (cm_content (systemMessage (Some ctx)))"
    using assms by (rule context_inside)
  have b: "sublist context_label (cm_content (systemMessage (Some ctx)))"
    using assms by (rule label_inside)
  have e: "cm_content (systemMessage (Some [])) = cm_content (systemMessage None)"
    by (simp add: systemMessage_def truthy_string_def)
  have f: "cm_content (systemMessage None) = lit ''You are a helpful AI assistant powered by GPT-4. You have access to a knowledge base through RAG (Retrieval-Augmented Generation).\<newline>      \<newline>      Provide helpful and accurate responses to user queries.\<newline>      \<newline>      Always be concise, helpful, and cite sources when using information from the provided context.''"
    by (simp add: systemMessage_def truthy_string_def instruction_head_def no_context_text_def
                  instruction_tail_def lit_def)
  have g: "cm_role (systemMessage c) = System"
    by (simp add: systemMessage_def)
  from a b label_absent_empty label_absent_none e f g chat_request_sent [of w history c]
  show ?thesis by blast
qed

text \<open>The context of \<open>demo_world\<close> stands in the instruction built from it.\<close>

theorem system_instruction_witness:
  "sublist (lit ''[a.txt, page unknown]: alpha'')
     (cm_content (systemMessage (Some (lit ''[a.txt, page unknown]: alpha''))))
   \<and> hd (rq_messages \<lparr>rq_model = lit ''gpt-4o'',
                        rq_messages = systemMessage (Some (lit ''[a.txt, page unknown]: alpha''))
                                        # [\<lparr>cm_role = User, cm_content = lit ''hi''\<rparr>],
                        rq_temperature = 7 / 10, rq_max_tokens = 1000\<rparr>)
       = systemMessage (Some (lit ''[a.txt, page unknown]: alpha''))
   \<and> calls (snd (generateChatResponse demo_world [\<lparr>cm_role = User, cm_content = lit ''hi''\<rparr>]
                   (Some (lit ''[a.txt, page unknown]: alpha''))))
       = [EvChat \<lparr>rq_model = lit ''gpt-4o'',
                  rq_messages = systemMessage (Some (lit ''[a.txt, page unknown]: alpha''))
                                  # [\<lparr>cm_role = User, cm_content = lit ''hi''\<rparr>],
                  rq_temperature = 7 / 10, rq_max_tokens = 1000\<rparr>]"
proof -
  have h: "lit ''[a.txt, page unknown]: alpha'' \<noteq> []"
    by (simp add: lit_def)
  have c: "calls demo_world = []"
    by (simp add: demo_world_def)
  from system_instruction [OF h, of "Some (lit ''[a.txt, page unknown]: alpha'')" demo_world
         "[\<lparr>cm_role = User, cm_content = lit ''hi''\<rparr>]"] c
  show ?thesis by simp
qed

subsection \<open>C6: an empty document is rejected before any embedding or upsert\<close>

text \<open>
  C6. processDocument fails with the empty-document error (wrapped by its \<open>catch\<close> block
  into \<open>Failed to process document: Document appears to be empty or unreadable\<close>) exactly
  when a text was read and is empty after trimming; for \<open>text/plain\<close> that is when the file
  was read and holds only white space. In that case the only call made is the file read: no
  text is split, no embedding is requested, the index is not touched. A text that is not
  blank is handed to the splitter, and one embedding is requested per chunk.
\<close>

theorem empty_document_rejected:
  "(fst (processDocument w path did name uid mime) = Inl (ProcessFailed EmptyDocument)
      \<longleftrightarrow> (\<exists>doc. fst (readDocumentText w path mime) = Inr doc \<and> trim doc = []))
   \<and> (fst (processDocument w path did name uid mime_plain) = Inl (ProcessFailed EmptyDocument)
      \<longleftrightarrow> (\<exists>doc. readFileSync w path = Inr doc \<and> list_all is_js_space doc))
   \<and> message (ProcessFailed EmptyDocument)
       = lit ''Failed to process document: Document appears to be empty or unreadable''
   \<and> (\<forall>doc. fst (readDocumentText w path mime) = Inr doc \<and> trim doc = []
         \<longrightarrow> calls (snd (processDocument w path did name uid mime)) = calls w @ [EvReadFile path])
   \<and> (\<forall>doc. fst (readDocumentText w path mime) = Inr doc \<and> trim doc \<noteq> []
         \<longrightarrow> prefix (calls w @ [EvReadFile path, EvSplitText doc] @ map EvEmbed (splitText w doc))
                    (calls (snd (processDocument w path did name uid mime))))"
proof -
  have iff: "\<And>m. fst (processDocument w path did name uid m) = Inl (ProcessFailed EmptyDocument)
      \<longleftrightarrow> (\<exists>doc. fst (readDocumentText w path m) = Inr doc \<and> trim doc = [])"
  proof
    fix m
    assume failed: "fst (processDocument w path did name uid m) = Inl (ProcessFailed EmptyDocument)"
    show "\<exists>doc. fst (readDocumentText w path m) = Inr doc \<and> trim doc = []"
    proof (cases "fst (readDocumentText w path m)")
      case (Inl e)
      from pd_read_error [OF Inl, of did name uid] failed have "e = EmptyDocument" by simp
      with Inl readDocumentText_not_empty_error [of w path m] show ?thesis by simp
    next
      case (Inr doc)
      show ?thesis
      proof (cases "trim doc = []")
        case True
        with Inr show ?thesis by simp
      next
        case False
        from pd_nonblank [OF Inr False, of did name uid] failed show ?thesis by auto
      qed
    qed
  next
    fix m
    assume "\<exists>doc. fst (readDocumentText w path m) = Inr doc \<and> trim doc = []"
    then obtain doc where "fst (readDocumentText w path m) = Inr doc" and "trim doc = []"
      by blast
    from pd_blank [OF this, of did name uid]
    show "fst (processDocument w path did name uid m) = Inl (ProcessFailed EmptyDocument)"
      by simp
  qed
  have plain: "(\<exists>doc. fst (readDocumentText w path mime_plain) = Inr doc \<and> trim doc = [])
               \<longleftrightarrow> (\<exists>doc. readFileSync w path = Inr doc \<and> list_all is_js_space doc)"
    by (simp add: readDocumentText_plain trim_blank split: sum.splits)
  have msg: "message (ProcessFailed EmptyDocument)
       = lit ''Failed to process document: Document appears to be empty or unreadable''"
    by (simp add: lit_def)
  have blank: "\<forall>doc. fst (readDocumentText w path mime) = Inr doc \<and> trim doc = []
         \<longrightarrow> calls (snd (processDocument w path did name uid mime)) = calls w @ [EvReadFile path]"
    using pd_blank [of w path mime _ did name uid] by simp
  have nonblank: "\<forall>doc. fst (readDocumentText w path mime) = Inr doc \<and> trim doc \<noteq> []
         \<longrightarrow> prefix (calls w @ [EvReadFile path, EvSplitText doc] @ map EvEmbed (splitText w doc))
                    (calls (snd (processDocument w path did name uid mime)))"
    using pd_nonblank [of w path mime _ did name uid] by blast
  from iff [of mime] iff [of mime_plain] plain msg blank nonblank show ?thesis by blast
qed

text \<open>
  In \<open>demo_world\<close> the file \<open>blank.txt\<close> holds a space, a line feed and a space: it is
  rejected after the read alone. The file \<open>a.txt\<close> holds \<open>hello\<close>: it is split and embedded.
\<close>

theorem empty_document_rejected_witness:
  "fst (processDocument demo_world (lit ''blank.txt'') 7 (lit ''blank.txt'') 1 mime_plain)
     = Inl (ProcessFailed EmptyDocument)
   \<and> calls (snd (processDocument demo_world (lit ''blank.txt'') 7 (lit ''blank.txt'') 1 mime_plain))
       = [EvReadFile (lit ''blank.txt'')]
   \<and> prefix [EvReadFile (lit ''a.txt''), EvSplitText (lit ''hello''), EvEmbed (lit ''hello'')]
        (calls (snd (processDocument demo_world (lit ''a.txt'') 7 (lit ''a.txt'') 1 mime_plain)))"
proof -
  have r1: "fst (readDocumentText demo_world (lit ''blank.txt'') mime_plain) = Inr (lit '' \<newline> '')"
    by (simp add: readDocumentText_plain demo_world_def)
  have t1: "trim (lit '' \<newline> '') = []"
    by (simp add: trim_blank lit_def is_js_space_def)
  have r2: "fst (readDocumentText demo_world (lit ''a.txt'') mime_plain) = Inr (lit ''hello'')"
    by (simp add: readDocumentText_plain demo_world_def lit_def)
  have t2: "trim (lit ''hello'') \<noteq> []"
    by (simp add: trim_blank lit_def is_js_space_def)
  have c: "calls demo_world = []" and s: "splitText demo_world (lit ''hello'') = [lit ''hello'']"
    by (simp_all add: demo_world_def)
  from empty_document_rejected [of demo_world "lit ''blank.txt''" 7 "lit ''blank.txt''" 1 mime_plain]
       r1 t1 c
  have a: "fst (processDocument demo_world (lit ''blank.txt'') 7 (lit ''blank.txt'') 1 mime_plain)
             = Inl (ProcessFailed EmptyDocument)
           \<and> calls (snd (processDocument demo_world (lit ''blank.txt'') 7 (lit ''blank.txt'') 1
                           mime_plain)) = [EvReadFile (lit ''blank.txt'')]"
    by auto
  from empty_document_rejected [of demo_world "lit ''a.txt''" 7 "lit ''a.txt''" 1 mime_plain]
       r2 t2 c s
  have b: "prefix [EvReadFile (lit ''a.txt''), EvSplitText (lit ''hello''), EvEmbed (lit ''hello'')]
        (calls (snd (processDocument demo_world (lit ''a.txt'') 7 (lit ''a.txt'') 1 mime_plain)))"
    by auto
  from a b show ?thesis by blast
qed

subsection \<open>C7: creating the collection and the first write\<close>

text \<open>
  C7. When the index is absent, upsertDocumentChunks lists the indexes, creates the index
  with dimension 1536 and the cosine metric, waits ten seconds and writes. It never asks the
  service whether the index is ready: whether it is ready at the write depends on the
  provisioning time alone (\<open>upsert_cold_calls\<close>). In a world where provisioning takes thirty
  seconds the write is issued against an index that is not ready.
\<close>

theorem upsert_issued_before_ready:
  "calls (snd (upsertDocumentChunks (demo_world\<lparr>indexes := []\<rparr>) [demo_chunk] [[1]]))
     = [EvListIndexes,
        EvCreateIndex (lit ''chatbot-knowledge-base'') 1536 Cosine,
        EvSleep 10000,
        EvUpsert (lit ''chatbot-knowledge-base'') False [chunk_vector [[1]] demo_chunk 0]]"
proof -
  let ?w = "demo_world\<lparr>indexes := []\<rparr>"
  have n: "indexName ?w = lit ''chatbot-knowledge-base''"
    by (simp add: indexName_def truthy_string_def demo_world_def default_index_name_def)
  have "calls (snd (upsertDocumentChunks ?w [demo_chunk] [[1]])) =
           calls ?w @ [EvListIndexes, EvCreateIndex (indexName ?w) 1536 Cosine, EvSleep 10000,
                      EvUpsert (indexName ?w) (provision_ms ?w \<le> 10000)
                        (map (\<lambda>(chunk, i). chunk_vector [[1]] chunk i)
                             (zip [demo_chunk] [0 ..< length [demo_chunk]]))]"
    by (rule upsert_cold_calls) (simp_all add: demo_world_def)
  then show ?thesis
    by (simp add: n) (simp add: demo_world_def)
qed

subsection \<open>C8: deleting a chat session\<close>

text \<open>
  C8. In a store whose messages are filed under their own ids (every store the server
  builds: \<open>messages_keyed_new\<close>, \<open>messages_keyed_createChatSession\<close>,
  \<open>messages_keyed_onMessage\<close>, \<open>messages_keyed_deleteChatSession\<close>), after deleteChatSession the session has no message
  left, no entry of the message map carries its id, and getChatSession finds no session.
\<close>

theorem session_deletion_complete:
  assumes "messages_keyed s"
  shows "getMessagesBySessionId (snd (deleteChatSession s i)) i = []
       \<and> length (getMessagesBySessionId (snd (deleteChatSession s i)) i) = 0
       \<and> filter (\<lambda>msg. msg_sessionId msg = i) (map snd (messages (snd (deleteChatSession s i)))) = []
       \<and> getChatSession (snd (deleteChatSession s i)) i = None"
proof -
  have a: "filter (\<lambda>msg. msg_sessionId msg = i) (map snd (messages (snd (deleteChatSession s i)))) = []"
    using assms by (rule deleted_none_left)
  then have b: "getMessagesBySessionId (snd (deleteChatSession s i)) i = []"
    by (simp only: getMessagesBySessionId_def sort_key_simps)
  have c: "getChatSession (snd (deleteChatSession s i)) i = None"
    by (simp add: getChatSession_def deleteChatSession_def Let_def AList.delete_conv')
  from a b c show ?thesis by simp
qed

text \<open>Session 1 of \<open>demo_store\<close> holds two messages; after the deletion it is gone.\<close>

theorem session_deletion_complete_witness:
  "messages_keyed demo_store
   \<and> length (getMessagesBySessionId demo_store 1) = 2
   \<and> getChatSession demo_store 1 \<noteq> None
   \<and> getMessagesBySessionId (snd (deleteChatSession demo_store 1)) 1 = []
   \<and> getChatSession (snd (deleteChatSession demo_store 1)) 1 = None"
proof -
  have k: "messages_keyed demo_store"
    by (simp add: messages_keyed_def demo_store_def)
  have n: "length (getMessagesBySessionId demo_store 1) = 2"
    by (simp add: getMessagesBySessionId_def demo_store_def)
  have g: "getChatSession demo_store 1 \<noteq> None"
    by (simp add: getChatSession_def demo_store_def)
  from session_deletion_complete [OF k, of 1] k n g show ?thesis by simp
qed

subsection \<open>C9: the last-message preview\<close>

text \<open>
  C9. When the sender owns the session and the message is processed to the end (the
  statements after the ownership check raise nothing), the stored session's \<open>lastMessage\<close>
  is the content itself if it has at most 100 code units, and otherwise its first 100 code
  units followed by three full stops; on an open socket a \<open>chat_response\<close> frame is sent.
\<close>

theorem last_message_preview:
  assumes "getChatSession st (p_sessionId p) = Some session"
      and "cs_userId session = p_userId p"
      and "\<not> isl (fst (processChatMessage w st ds p))"
  shows "map_option cs_lastMessage
           (getChatSession (fst (snd (onMessage w st ws_open ds (ChatMessageIn p)))) (p_sessionId p))
         = Some (Some (if length (p_content p) \<le> 100 then p_content p
                       else take 100 (p_content p) @ lit ''...''))
       \<and> (\<exists>userMessage aiMessage.
             snd (snd (onMessage w st True ds (ChatMessageIn p)))
             = [ChatResponseOut userMessage aiMessage])"
proof -
  from assms(3) obtain r where ok: "fst (processChatMessage w st ds p) = Inr r"
    by (cases "fst (processChatMessage w st ds p)") simp_all
  from processChatMessage_store [OF ok] obtain st2 where
    s: "chatSessions st2 = chatSessions st" and
    e: "snd (snd (processChatMessage w st ds p))
                = snd (updateChatSession st2 (at_update ds) (p_sessionId p)
                         \<lparr>upd_title = None,
                          upd_lastMessage = Some (Some (lastMessagePreview (p_content p)))\<rparr>)"
    by blast
  from assms(1) s have "map_of (chatSessions st2) (p_sessionId p) = Some session"
    by (simp add: getChatSession_def)
  from updateChatSession_present [OF this] e
  have "map_option cs_lastMessage
           (getChatSession (snd (snd (processChatMessage w st ds p))) (p_sessionId p))
         = Some (Some (if length (p_content p) \<le> 100 then p_content p
                       else take 100 (p_content p) @ lit ''...''))"
    by (simp add: applyUpdates_def lastMessagePreview_def)
  with onMessage_store [OF assms(1,2)] onMessage_frames [OF assms]
  show ?thesis by simp
qed

text \<open>
  A message of 50 code units is kept as it is; of a message of 150 code units the preview
  keeps the first 100 and appends the ellipsis.
\<close>

theorem last_message_preview_witness:
  "map_option cs_lastMessage
     (getChatSession (fst (snd (onMessage demo_world demo_store True demo_dates
        (ChatMessageIn \<lparr>p_sessionId = 1, p_content = replicate 50 120, p_userId = 1\<rparr>)))) 1)
     = Some (Some (replicate 50 120))
   \<and> map_option cs_lastMessage
     (getChatSession (fst (snd (onMessage demo_world demo_store True demo_dates
        (ChatMessageIn \<lparr>p_sessionId = 1, p_content = replicate 150 120, p_userId = 1\<rparr>)))) 1)
     = Some (Some (replicate 100 120 @ lit ''...''))"
proof -
  let ?short = "\<lparr>p_sessionId = 1, p_content = replicate 50 120, p_userId = 1\<rparr>"
  let ?long = "\<lparr>p_sessionId = 1, p_content = replicate 150 120, p_userId = 1\<rparr>"
  let ?session = "\<lparr>cs_id = 1, cs_userId = 1, cs_title = lit ''New Chat'',
                   cs_lastMessage = None, cs_createdAt = 10, cs_updatedAt = 10\<rparr>"
  have g: "\<And>q. p_sessionId q = 1 \<Longrightarrow> getChatSession demo_store (p_sessionId q) = Some ?session"
    by (simp add: getChatSession_def demo_store_def)
  have ok: "\<And>q. \<not> isl (fst (processChatMessage demo_world demo_store demo_dates q))"
    by (rule processChatMessage_succeeds) (simp add: demo_world_def)
  from last_message_preview [OF g _ ok, of ?short True]
       last_message_preview [OF g _ ok, of ?long True]
  show ?thesis by simp
qed

subsection \<open>C10: a match without a score\<close>

text \<open>
  C10. A match that carries no score becomes a search result of score 0 (its text is the
  metadata text, or empty when the metadata or its text is absent). Its score is not above
  0.7, and taking it out of the response, wherever it stands, leaves the context string as
  it is: it never reaches the context.
\<close>

theorem scoreless_match_excluded:
  assumes "m_score m = None"
  shows "sr_score (toSearchResult m) = 0
       \<and> sr_text (toSearchResult m)
           = (case m_metadata m of None \<Rightarrow> []
              | Some md \<Rightarrow> (case md_text md of None \<Rightarrow> [] | Some t \<Rightarrow> t))
       \<and> \<not> 7 / 10 < sr_score (toSearchResult m)
       \<and> contextOfResults (toSearchResults (Some (pre @ m # post)))
           = contextOfResults (toSearchResults (Some (pre @ post)))"
proof -
  have a: "sr_score (toSearchResult m) = 0"
    using assms by (simp add: toSearchResult_def)
  have b: "sr_text (toSearchResult m)
           = (case m_metadata m of None \<Rightarrow> []
              | Some md \<Rightarrow> (case md_text md of None \<Rightarrow> [] | Some t \<Rightarrow> t))"
    by (simp add: toSearchResult_def split: option.splits)
  have c: "\<not> 7 / 10 < sr_score (toSearchResult m)"
    by (simp add: a)
  have d: "contextOfResults (toSearchResults (Some (pre @ m # post)))
           = contextOfResults (toSearchResults (Some (pre @ post)))"
    using contextOfResults_drop_low [OF scoreless_not_high [OF assms]]
    by (simp add: toSearchResults_def)
  from a b c d show ?thesis by blast
qed

text \<open>A response of one scored match (0.8) followed by a match without score or metadata.\<close>

theorem scoreless_match_excluded_witness:
  "sr_score (toSearchResult \<lparr>m_id = lit ''9-0'', m_score = None, m_metadata = None\<rparr>) = 0
   \<and> sr_text (toSearchResult \<lparr>m_id = lit ''9-0'', m_score = None, m_metadata = None\<rparr>) = []
   \<and> contextOfResults (toSearchResults (Some
        [\<lparr>m_id = lit ''1-0'', m_score = Some (4 / 5),
          m_metadata = st_metadata (demo_record (lit ''1-0'') 1 (4 / 5) (lit ''a.txt'') (lit ''alpha''))\<rparr>,
         \<lparr>m_id = lit ''9-0'', m_score = None, m_metadata = None\<rparr>]))
     = Inr (lit ''[a.txt, page unknown]: alpha'')"
proof -
  let ?m = "\<lparr>m_id = lit ''9-0'', m_score = None, m_metadata = None\<rparr>"
  let ?k = "\<lparr>m_id = lit ''1-0'', m_score = Some (4 / 5),
          m_metadata = st_metadata (demo_record (lit ''1-0'') 1 (4 / 5) (lit ''a.txt'') (lit ''alpha''))\<rparr>"
  have h: "m_score ?m = None" by simp
  have "contextOfResults (toSearchResults (Some [?k])) = Inr (lit ''[a.txt, page unknown]: alpha'')"
    by (simp add: toSearchResults_def toSearchResult_def contextOfResults_def high_confidence_def
                  formatResult_def pageLabel_def demo_record_def lit_def)
  with scoreless_match_excluded [OF h, of "[?k]" "[]"] show ?thesis by simp
qed

end
